theory Spec2Isabelle
  imports Complex_Main "HOL-Library.Sublist"
begin

section \<open>JavaScript strings\<close>

text \<open>
  A JavaScript string is modelled by the list of bytes of its UTF-8 encoding. The handlers
  only search for ASCII patterns (backticks, braces), concatenate, slice at positions found
  by those searches and trim, and all of these agree on UTF-8 bytes and on UTF-16 code
  units. Characters outside ASCII that occur in the prompt constants are written as bytes.
\<close>

definition em_dash :: string where
  "em_dash = [CHR 0xE2, CHR 0x80, CHR 0x94]"

definition en_dash :: string where
  "en_dash = [CHR 0xE2, CHR 0x80, CHR 0x93]"

definition bullet :: string where
  "bullet = [CHR 0xE2, CHR 0x80, CHR 0xA2]"

definition NL :: string where
  "NL = [CHR 0x0A]"

text \<open>
  \<open>String.prototype.trim\<close> removes WhiteSpace and LineTerminator code points from both
  ends: U+0009..U+000D, U+0020, U+00A0, U+1680, U+2000..U+200A, U+2028, U+2029, U+202F,
  U+205F, U+3000 and U+FEFF.
\<close>

definition ascii_ws :: "char \<Rightarrow> bool" where
  "ascii_ws c = (c \<in> set [CHR 0x09, CHR 0x0A, CHR 0x0B, CHR 0x0C, CHR 0x0D, CHR 0x20])"

definition wide_ws :: "string list" where
  "wide_ws =
    [[CHR 0xC2, CHR 0xA0], [CHR 0xE1, CHR 0x9A, CHR 0x80],
     [CHR 0xE2, CHR 0x80, CHR 0x80], [CHR 0xE2, CHR 0x80, CHR 0x81],
     [CHR 0xE2, CHR 0x80, CHR 0x82], [CHR 0xE2, CHR 0x80, CHR 0x83],
     [CHR 0xE2, CHR 0x80, CHR 0x84], [CHR 0xE2, CHR 0x80, CHR 0x85],
     [CHR 0xE2, CHR 0x80, CHR 0x86], [CHR 0xE2, CHR 0x80, CHR 0x87],
     [CHR 0xE2, CHR 0x80, CHR 0x88], [CHR 0xE2, CHR 0x80, CHR 0x89],
     [CHR 0xE2, CHR 0x80, CHR 0x8A], [CHR 0xE2, CHR 0x80, CHR 0xA8],
     [CHR 0xE2, CHR 0x80, CHR 0xA9], [CHR 0xE2, CHR 0x80, CHR 0xAF],
     [CHR 0xE2, CHR 0x81, CHR 0x9F], [CHR 0xE3, CHR 0x80, CHR 0x80],
     [CHR 0xEF, CHR 0xBB, CHR 0xBF]]"

text \<open>Number of bytes of the white-space character a string begins (ends) with; 0 if none.\<close>

definition ws_lead :: "string \<Rightarrow> nat" where
  "ws_lead s =
    (case s of [] \<Rightarrow> 0
     | c # _ \<Rightarrow> if ascii_ws c then 1
                else (case find (\<lambda>w. prefix w s) wide_ws of None \<Rightarrow> 0 | Some w \<Rightarrow> length w))"

definition ws_tail :: "string \<Rightarrow> nat" where
  "ws_tail s =
    (case rev s of [] \<Rightarrow> 0
     | c # _ \<Rightarrow> if ascii_ws c then 1
                else (case find (\<lambda>w. suffix w s) wide_ws of None \<Rightarrow> 0 | Some w \<Rightarrow> length w))"

lemma ws_lead_le: "ws_lead s \<le> length s"
proof (cases s)
  case Nil
  then show ?thesis by (simp add: ws_lead_def)
next
  case (Cons c cs)
  show ?thesis
  proof (cases "find (\<lambda>w. prefix w s) wide_ws")
    case None
    then show ?thesis using Cons by (simp add: ws_lead_def)
  next
    case (Some w)
    then have "prefix w s" by (auto simp: find_Some_iff)
    then have "length w \<le> length s" by (rule prefix_length_le)
    then show ?thesis using Cons Some by (simp add: ws_lead_def)
  qed
qed

lemma ws_tail_le: "ws_tail s \<le> length s"
proof (cases "rev s")
  case Nil
  then show ?thesis by (simp add: ws_tail_def)
next
  case (Cons c cs)
  then have ne: "s \<noteq> []" by auto
  show ?thesis
  proof (cases "find (\<lambda>w. suffix w s) wide_ws")
    case None
    then show ?thesis using Cons ne by (simp add: ws_tail_def Suc_leI)
  next
    case (Some w)
    then have "suffix w s" by (auto simp: find_Some_iff)
    then have "length w \<le> length s" by (rule suffix_length_le)
    then show ?thesis using Cons Some ne by (simp add: ws_tail_def Suc_leI)
  qed
qed

function trimStart :: "string \<Rightarrow> string" where
  "trimStart s = (if ws_lead s = 0 then s else trimStart (drop (ws_lead s) s))"
  by pat_completeness auto
termination
proof (relation "measure length")
  show "wf (measure length)" by simp
next
  fix s :: string
  assume "ws_lead s \<noteq> 0"
  moreover have "ws_lead s \<le> length s" by (rule ws_lead_le)
  ultimately show "(drop (ws_lead s) s, s) \<in> measure length" by simp
qed

function trimEnd :: "string \<Rightarrow> string" where
  "trimEnd s = (if ws_tail s = 0 then s else trimEnd (take (length s - ws_tail s) s))"
  by pat_completeness auto
termination
proof (relation "measure length")
  show "wf (measure length)" by simp
next
  fix s :: string
  assume "ws_tail s \<noteq> 0"
  moreover have "ws_tail s \<le> length s" by (rule ws_tail_le)
  ultimately show "(take (length s - ws_tail s) s, s) \<in> measure length" by simp
qed

declare trimStart.simps [simp del] trimEnd.simps [simp del]

definition trim :: "string \<Rightarrow> string" where
  "trim s = trimEnd (trimStart s)"

text \<open>Decimal rendering of a natural number, as in the template literal \<open>Option ${i + 1}\<close>.\<close>

function string_of_nat :: "nat \<Rightarrow> string" where
  "string_of_nat n =
    (if n < 10 then [''0123456789'' ! n]
     else string_of_nat (n div 10) @ [''0123456789'' ! (n mod 10)])"
  by pat_completeness auto
termination
  by (relation "measure id") auto

declare string_of_nat.simps [simp del]

text \<open>\<open>indexOf\<close> and \<open>lastIndexOf\<close> of a character: \<open>None\<close> is the result \<open>-1\<close>.\<close>

fun indexOf :: "string \<Rightarrow> char \<Rightarrow> nat option" where
  "indexOf [] c = None"
| "indexOf (x # xs) c = (if x = c then Some 0 else map_option Suc (indexOf xs c))"

definition lastIndexOf :: "string \<Rightarrow> char \<Rightarrow> nat option" where
  "lastIndexOf s c =
    (case indexOf (rev s) c of None \<Rightarrow> None | Some k \<Rightarrow> Some (length s - 1 - k))"

text \<open>\<open>s.slice(a, b)\<close> for \<open>0 \<le> a\<close> and \<open>0 \<le> b\<close>: empty when \<open>b \<le> a\<close>.\<close>

definition slice :: "string \<Rightarrow> nat \<Rightarrow> nat \<Rightarrow> string" where
  "slice s a b = take (b - a) (drop a s)"

section \<open>JavaScript values that come out of JSON\<close>

text \<open>
  A number is represented by what the handlers can observe of it: whether it is zero
  (the only falsy number JSON can denote) and its rendering by \<open>String\<close>.
\<close>

datatype jsnum = JsNum (num_zero: bool) (num_text: string)

datatype json =
    JNull
  | JBool bool
  | JNum jsnum
  | JStr string
  | JArr "json list"
  | JObj "(string \<times> json) list"

text \<open>
  A value that may be \<open>undefined\<close> is a \<open>json option\<close>, \<open>None\<close> being \<open>undefined\<close>.
  A computation that may throw returns an option, \<open>None\<close> being the exception.
\<close>

fun truthy :: "json option \<Rightarrow> bool" where
  "truthy None = False"
| "truthy (Some JNull) = False"
| "truthy (Some (JBool b)) = b"
| "truthy (Some (JNum n)) = (\<not> num_zero n)"
| "truthy (Some (JStr s)) = (s \<noteq> [])"
| "truthy (Some (JArr xs)) = True"
| "truthy (Some (JObj kvs)) = True"

fun nullish :: "json option \<Rightarrow> bool" where
  "nullish None = True"
| "nullish (Some JNull) = True"
| "nullish (Some v) = False"

text \<open>The operators \<open>v ?? d\<close> and \<open>v || d\<close>.\<close>

fun nullish_or :: "json option \<Rightarrow> json \<Rightarrow> json" where
  "nullish_or None d = d"
| "nullish_or (Some JNull) d = d"
| "nullish_or (Some v) d = v"

definition truthy_or :: "json option \<Rightarrow> json \<Rightarrow> json" where
  "truthy_or v d = (case v of None \<Rightarrow> d | Some x \<Rightarrow> if truthy v then x else d)"

fun is_string :: "json option \<Rightarrow> bool" where
  "is_string (Some (JStr s)) = True"
| "is_string v = False"

fun isArray :: "json option \<Rightarrow> bool" where
  "isArray (Some (JArr xs)) = True"
| "isArray v = False"

text \<open>
  Reading a member \<open>v.k\<close> for one of the keys the handlers use (\<open>label\<close>, \<open>text\<close>,
  \<open>alternatives\<close>, \<open>action\<close>, ...): \<open>null\<close> throws a TypeError, an object yields its own
  member or \<open>undefined\<close>, and booleans, numbers, strings and arrays yield \<open>undefined\<close>, since
  none of these keys is a member of their prototypes.
\<close>

fun get_prop :: "json \<Rightarrow> string \<Rightarrow> json option option" where
  "get_prop JNull k = None"
| "get_prop (JObj kvs) k = Some (map_of kvs k)"
| "get_prop v k = Some None"

text \<open>
  \<open>String(v)\<close>. An object whose own member \<open>toString\<close> shadows the inherited method cannot
  be converted (no JSON value is callable) and throws a TypeError; \<open>Array.prototype.join\<close>
  renders \<open>null\<close> elements as the empty string.
\<close>

fun join_with :: "string \<Rightarrow> string list \<Rightarrow> string" where
  "join_with sep [] = []"
| "join_with sep [x] = x"
| "join_with sep (x # y # ys) = x @ sep @ join_with sep (y # ys)"

fun sequence :: "'a option list \<Rightarrow> 'a list option" where
  "sequence [] = Some []"
| "sequence (x # xs) =
    (case x of None \<Rightarrow> None
     | Some y \<Rightarrow> (case sequence xs of None \<Rightarrow> None | Some ys \<Rightarrow> Some (y # ys)))"

fun js_String :: "json \<Rightarrow> string option" where
  "js_String JNull = Some ''null''"
| "js_String (JBool b) = Some (if b then ''true'' else ''false'')"
| "js_String (JNum n) = Some (num_text n)"
| "js_String (JStr s) = Some s"
| "js_String (JArr xs) =
    map_option (join_with '','')
      (sequence (map (\<lambda>x. if x = JNull then Some [] else js_String x) xs))"
| "js_String (JObj kvs) =
    (if ''toString'' \<in> fst ` set kvs then None else Some ''[object Object]'')"

text \<open>\<open>xs.join(sep)\<close> for an array of JSON values.\<close>

definition js_join :: "string \<Rightarrow> json list \<Rightarrow> string option" where
  "js_join sep xs =
    map_option (join_with sep)
      (sequence (map (\<lambda>x. if x = JNull then Some [] else js_String x) xs))"

section \<open>Responses\<close>

text \<open>
  The body of a response: \<open>{error: msg}\<close>, \<open>{error: "parse_failed", raw}\<close>, the body
  \<open>{error: String(err)}\<close> of the last-resort handler (its text is the engine's), the
  alternatives, each a label and a text, together with the other members that are
  serialised along with them, a parsed value serialised as it is, or plain text.
\<close>

datatype 'l payload =
    ErrorMessage string
  | ParseFailed string
  | UnhandledError
  | Alternatives "('l \<times> string) list" "(string \<times> json) list"
  | Parsed json
  | Plain string

text \<open>
  What a handler does with a request: it answers with a status and a body, or an exception
  leaves it uncaught. \<open>NotModelled\<close> marks the inputs on which the handler depends on
  something outside the embedding (floating point numbers in JSON text, the conversion of
  a string to a number).
\<close>

datatype 'l outcome = Response nat "'l payload" | Uncaught | NotModelled

section \<open>Normalising the alternatives\<close>

definition option_label :: "nat \<Rightarrow> string" where
  "option_label i = ''Option '' @ string_of_nat (i + 1)"

subsection \<open>supabase/functions/ai-edit/index.ts\<close>

text \<open>
  \<^verbatim>\<open>parsed.alternatives
     .map((alt, i) => ({ label: String(alt.label ?? `Option ${i + 1}`), text: String(alt.text ?? "") }))
     .filter((alt) => alt.text.trim().length > 0)\<close>
\<close>

definition ts_entry :: "nat \<Rightarrow> json \<Rightarrow> (string \<times> string) option" where
  "ts_entry i alt =
    (case get_prop alt ''label'' of None \<Rightarrow> None
     | Some l \<Rightarrow>
        (case js_String (nullish_or l (JStr (option_label i))) of None \<Rightarrow> None
         | Some label \<Rightarrow>
            (case get_prop alt ''text'' of None \<Rightarrow> None
             | Some t \<Rightarrow>
                (case js_String (nullish_or t (JStr [])) of None \<Rightarrow> None
                 | Some text \<Rightarrow> Some (label, text)))))"

fun ts_map :: "nat \<Rightarrow> json list \<Rightarrow> (string \<times> string) list option" where
  "ts_map i [] = Some []"
| "ts_map i (alt # alts) =
    (case ts_entry i alt of None \<Rightarrow> None
     | Some e \<Rightarrow> (case ts_map (Suc i) alts of None \<Rightarrow> None | Some es \<Rightarrow> Some (e # es)))"

definition ts_keep :: "string \<times> string \<Rightarrow> bool" where
  "ts_keep alt = (length (trim (snd alt)) > 0)"

definition ts_normalise :: "json list \<Rightarrow> (string \<times> string) list option" where
  "ts_normalise alts = map_option (filter ts_keep) (ts_map 0 alts)"

fun array_items :: "json option \<Rightarrow> json list" where
  "array_items (Some (JArr xs)) = xs"
| "array_items v = []"

text \<open>
  The handler after \<open>parseAlternatives\<close> has returned \<open>parsed\<close>: the schema check, the
  normalisation and the three answers; an exception reaches the last-resort \<open>catch\<close>.
\<close>

definition ts_finish :: "json \<Rightarrow> string outcome" where
  "ts_finish parsed =
    (case get_prop parsed ''alternatives'' of None \<Rightarrow> Response 500 UnhandledError
     | Some a \<Rightarrow>
        if \<not> truthy a \<or> \<not> isArray a then Response 200 (ErrorMessage ''bad_schema'')
        else (case ts_normalise (array_items a) of None \<Rightarrow> Response 500 UnhandledError
              | Some alternatives \<Rightarrow>
                  if length alternatives = 0
                  then Response 200 (ErrorMessage ''empty_alternatives'')
                  else Response 200 (Alternatives alternatives [])))"

subsection \<open>api/ai-edit.js\<close>

text \<open>
  \<^verbatim>\<open>result.alternatives = result.alternatives
     .map((alt, i) => ({ label: alt.label || `Option ${i + 1}`, text: alt.text || '' }))
     .filter(alt => alt.text.trim());\<close>
  The label stays whatever truthy value the entry carried. \<open>alt.text.trim()\<close> throws
  when the text is a truthy value that is not a string.
\<close>

definition js_entry :: "nat \<Rightarrow> json \<Rightarrow> (json \<times> json) option" where
  "js_entry i alt =
    (case get_prop alt ''label'' of None \<Rightarrow> None
     | Some l \<Rightarrow>
        (case get_prop alt ''text'' of None \<Rightarrow> None
         | Some t \<Rightarrow>
            Some (truthy_or l (JStr (option_label i)), truthy_or t (JStr []))))"

fun js_map :: "nat \<Rightarrow> json list \<Rightarrow> (json \<times> json) list option" where
  "js_map i [] = Some []"
| "js_map i (alt # alts) =
    (case js_entry i alt of None \<Rightarrow> None
     | Some e \<Rightarrow> (case js_map (Suc i) alts of None \<Rightarrow> None | Some es \<Rightarrow> Some (e # es)))"

fun js_filter :: "(json \<times> json) list \<Rightarrow> (json \<times> string) list option" where
  "js_filter [] = Some []"
| "js_filter ((l, JStr s) # alts) =
    (case js_filter alts of None \<Rightarrow> None
     | Some kept \<Rightarrow> Some (if trim s \<noteq> [] then (l, s) # kept else kept))"
| "js_filter ((l, t) # alts) = None"

definition js_normalise :: "json list \<Rightarrow> (json \<times> string) list option" where
  "js_normalise alts = (case js_map 0 alts of None \<Rightarrow> None | Some es \<Rightarrow> js_filter es)"

fun other_members :: "json \<Rightarrow> (string \<times> json) list" where
  "other_members (JObj kvs) = filter (\<lambda>kv. fst kv \<noteq> ''alternatives'') kvs"
| "other_members v = []"

text \<open>
  The handler after \<open>parseAlternatives\<close> has returned \<open>result\<close> (there the
  \<open>alternatives\<close> member is known to be an array). Nothing catches an exception here.
\<close>

definition js_finish :: "json \<Rightarrow> json outcome" where
  "js_finish result =
    (case get_prop result ''alternatives'' of None \<Rightarrow> Uncaught
     | Some a \<Rightarrow>
        (case js_normalise (array_items a) of None \<Rightarrow> Uncaught
         | Some alternatives \<Rightarrow>
             if length alternatives = 0 then Response 200 (ErrorMessage ''bad_schema'')
             else Response 200 (Alternatives alternatives (other_members result))))"

section \<open>JSON.parse\<close>

text \<open>
  \<open>JSON.parse\<close> is a lexer and a pushdown parser over the tokens. \<open>Syntax\<close> is the
  SyntaxError it throws (\<open>TypeError\<close> and \<open>Thrown msg\<close>, for \<open>throw new Error(msg)\<close>, are
  the other exceptions of the code that calls it). Two kinds of text are outside the
  embedding and are reported as \<open>Unsupported\<close> instead of being given a value: number literals with a fraction, an
  exponent or more than 15 digits (their value and rendering are floating point) and
  \<open>\u\<close> escapes of surrogate code units (they have no UTF-8 encoding).
\<close>

datatype fault = Syntax | Unsupported | TypeError | Thrown string

datatype token =
    TLBrace | TRBrace | TLBrack | TRBrack | TColon | TComma
  | TString string | TNumber string | TWord string

datatype lex_state =
    Idle
  | InString string
  | InEscape string
  | InUnicode string string
  | InNumber string
  | InWord string

definition is_digit :: "char \<Rightarrow> bool" where
  "is_digit c = (c \<in> set ''0123456789'')"

definition is_letter :: "char \<Rightarrow> bool" where
  "is_letter c = (c \<in> set ''abcdefghijklmnopqrstuvwxyzABCDEFGHIJKLMNOPQRSTUVWXYZ'')"

definition is_number_char :: "char \<Rightarrow> bool" where
  "is_number_char c = (is_digit c \<or> c \<in> set ''+-.eE'')"

definition json_ws :: "char \<Rightarrow> bool" where
  "json_ws c = (c \<in> set [CHR 0x20, CHR 0x09, CHR 0x0A, CHR 0x0D])"

definition punct :: "char \<Rightarrow> token option" where
  "punct c = map_of [(CHR ''{'', TLBrace), (CHR ''}'', TRBrace), (CHR ''['', TLBrack),
                     (CHR '']'', TRBrack), (CHR '':'', TColon), (CHR '','', TComma)] c"

definition escape_char :: "char \<Rightarrow> char option" where
  "escape_char c = map_of [(CHR 0x22, CHR 0x22), (CHR 0x5C, CHR 0x5C), (CHR ''/'', CHR ''/''),
                           (CHR ''b'', CHR 0x08), (CHR ''f'', CHR 0x0C), (CHR ''n'', CHR 0x0A),
                           (CHR ''r'', CHR 0x0D), (CHR ''t'', CHR 0x09)] c"

definition hex_value :: "char \<Rightarrow> nat option" where
  "hex_value c =
    map_of (zip ''0123456789abcdef'' [0 ..< 16] @ zip ''ABCDEF'' [10 ..< 16]) c"

definition hex4 :: "string \<Rightarrow> nat option" where
  "hex4 hs = fold (\<lambda>h acc. case (acc, hex_value h) of (Some a, Some d) \<Rightarrow> Some (16 * a + d)
                                                  | _ \<Rightarrow> None) hs (Some 0)"

text \<open>The UTF-8 bytes of a code point below \<open>0x10000\<close> that is not a surrogate.\<close>

definition utf8 :: "nat \<Rightarrow> string" where
  "utf8 n =
    (if n < 0x80 then [char_of n]
     else if n < 0x800 then [char_of (0xC0 + n div 64), char_of (0x80 + n mod 64)]
     else [char_of (0xE0 + n div 4096), char_of (0x80 + (n div 64) mod 64),
           char_of (0x80 + n mod 64)])"

text \<open>
  The lexer reads one character at a time. Accumulators hold the characters of the token
  being read in reverse. A run of number characters or of letters is one token, whose
  shape is checked when it is turned into a value.
\<close>

definition start_token :: "char \<Rightarrow> token list \<Rightarrow> fault + (lex_state \<times> token list)" where
  "start_token c out =
    (if json_ws c then Inr (Idle, out)
     else if c = CHR 0x22 then Inr (InString [], out)
     else if is_digit c \<or> c = CHR ''-'' then Inr (InNumber [c], out)
     else if is_letter c then Inr (InWord [c], out)
     else (case punct c of Some t \<Rightarrow> Inr (Idle, t # out) | None \<Rightarrow> Inl Syntax))"

fun lex_step :: "lex_state \<Rightarrow> char \<Rightarrow> token list \<Rightarrow> fault + (lex_state \<times> token list)" where
  "lex_step Idle c out = start_token c out"
| "lex_step (InString acc) c out =
    (if c = CHR 0x22 then Inr (Idle, TString (rev acc) # out)
     else if c = CHR 0x5C then Inr (InEscape acc, out)
     else if of_char c < (0x20 :: nat) then Inl Syntax
     else Inr (InString (c # acc), out))"
| "lex_step (InEscape acc) c out =
    (if c = CHR ''u'' then Inr (InUnicode acc [], out)
     else (case escape_char c of Some e \<Rightarrow> Inr (InString (e # acc), out)
           | None \<Rightarrow> Inl Syntax))"
| "lex_step (InUnicode acc hs) c out =
    (if hex_value c = None then Inl Syntax
     else if length hs < 3 then Inr (InUnicode acc (hs @ [c]), out)
     else (case hex4 (hs @ [c]) of None \<Rightarrow> Inl Syntax
           | Some n \<Rightarrow> if 0xD800 \<le> n \<and> n \<le> 0xDFFF then Inl Unsupported
                       else Inr (InString (rev (utf8 n) @ acc), out)))"
| "lex_step (InNumber acc) c out =
    (if is_number_char c then Inr (InNumber (c # acc), out)
     else start_token c (TNumber (rev acc) # out))"
| "lex_step (InWord acc) c out =
    (if is_letter c then Inr (InWord (c # acc), out)
     else start_token c (TWord (rev acc) # out))"

fun lex_from :: "lex_state \<Rightarrow> token list \<Rightarrow> string \<Rightarrow> fault + token list" where
  "lex_from st out [] =
    (case st of
       Idle \<Rightarrow> Inr (rev out)
     | InNumber acc \<Rightarrow> Inr (rev (TNumber (rev acc) # out))
     | InWord acc \<Rightarrow> Inr (rev (TWord (rev acc) # out))
     | _ \<Rightarrow> Inl Syntax)"
| "lex_from st out (c # cs) =
    (case lex_step st c out of Inl e \<Rightarrow> Inl e | Inr (st', out') \<Rightarrow> lex_from st' out' cs)"

definition tokens :: "string \<Rightarrow> fault + token list" where
  "tokens s = lex_from Idle [] s"

text \<open>
  A number token has the shape
  \<open>-? (0 | [1-9][0-9]*) (. [0-9]+)? ([eE] [+-]? [0-9]+)?\<close>.
  An integer literal of at most 15 digits denotes exactly that integer, which \<open>String\<close>
  renders by the same digits (\<open>-0\<close> as \<open>0\<close>).
\<close>

definition int_part_ok :: "string \<Rightarrow> bool" where
  "int_part_ok ds = (ds \<noteq> [] \<and> (hd ds \<noteq> CHR ''0'' \<or> length ds = 1))"

definition frac_ok :: "string \<Rightarrow> bool" where
  "frac_ok r =
    (case r of [] \<Rightarrow> True
     | c # ds \<Rightarrow> c = CHR ''.'' \<and> ds \<noteq> [] \<and> list_all is_digit ds)"

definition exp_ok :: "string \<Rightarrow> bool" where
  "exp_ok r =
    (case r of [] \<Rightarrow> True
     | c # ds \<Rightarrow>
        (c = CHR ''e'' \<or> c = CHR ''E'') \<and>
        (let ds' = (case ds of [] \<Rightarrow> []
                    | d # ds'' \<Rightarrow> if d = CHR ''+'' \<or> d = CHR ''-'' then ds'' else ds)
         in ds' \<noteq> [] \<and> list_all is_digit ds'))"

definition number_ok :: "string \<Rightarrow> bool" where
  "number_ok lit =
    (let body = (case lit of [] \<Rightarrow> [] | c # cs \<Rightarrow> if c = CHR ''-'' then cs else lit);
         rest = dropWhile is_digit body;
         frac = takeWhile (\<lambda>c. c \<noteq> CHR ''e'' \<and> c \<noteq> CHR ''E'') rest;
         ex = dropWhile (\<lambda>c. c \<noteq> CHR ''e'' \<and> c \<noteq> CHR ''E'') rest
     in int_part_ok (takeWhile is_digit body) \<and> frac_ok frac \<and> exp_ok ex)"

definition number_value :: "string \<Rightarrow> fault + json" where
  "number_value lit =
    (if \<not> number_ok lit then Inl Syntax
     else
      (let body = (case lit of [] \<Rightarrow> [] | c # cs \<Rightarrow> if c = CHR ''-'' then cs else lit)
       in if \<not> list_all is_digit body \<or> length body > 15 then Inl Unsupported
          else Inr (JNum (JsNum (body = ''0'') (if body = ''0'' then ''0'' else lit)))))"

definition word_value :: "string \<Rightarrow> fault + json" where
  "word_value w =
    (if w = ''true'' then Inr (JBool True)
     else if w = ''false'' then Inr (JBool False)
     else if w = ''null'' then Inr JNull
     else Inl Syntax)"

text \<open>
  The parser keeps a stack of the arrays and objects that are open. A repeated key of
  an object keeps its first position and takes the last value. The members are listed in
  the order of the text; the engine enumerates keys that are array indices before the
  others, which shows only in the order of serialised members.
\<close>

datatype frame =
    ArrF "json list"
  | ObjF "(string \<times> json) list"
  | KeyF string

datatype mode =
    MValue bool
  | MKey bool
  | MColon
  | MAfter
  | MDone json

fun obj_put :: "(string \<times> json) list \<Rightarrow> string \<Rightarrow> json \<Rightarrow> (string \<times> json) list" where
  "obj_put [] k v = [(k, v)]"
| "obj_put ((k', v') # kvs) k v =
    (if k' = k then (k, v) # kvs else (k', v') # obj_put kvs k v)"

definition deliver :: "json \<Rightarrow> frame list \<Rightarrow> fault + (mode \<times> frame list)" where
  "deliver v st =
    (case st of
       [] \<Rightarrow> Inr (MDone v, [])
     | ArrF items # st' \<Rightarrow> Inr (MAfter, ArrF (v # items) # st')
     | KeyF k # ObjF ms # st' \<Rightarrow> Inr (MAfter, ObjF (obj_put ms k v) # st')
     | _ \<Rightarrow> Inl Syntax)"

definition parse_value :: "token \<Rightarrow> frame list \<Rightarrow> fault + (mode \<times> frame list)" where
  "parse_value t st =
    (case t of
       TLBrack \<Rightarrow> Inr (MValue True, ArrF [] # st)
     | TLBrace \<Rightarrow> Inr (MKey True, ObjF [] # st)
     | TString s \<Rightarrow> deliver (JStr s) st
     | TNumber lit \<Rightarrow> (case number_value lit of Inl e \<Rightarrow> Inl e | Inr v \<Rightarrow> deliver v st)
     | TWord w \<Rightarrow> (case word_value w of Inl e \<Rightarrow> Inl e | Inr v \<Rightarrow> deliver v st)
     | _ \<Rightarrow> Inl Syntax)"

definition close_top :: "frame list \<Rightarrow> fault + (mode \<times> frame list)" where
  "close_top st =
    (case st of
       ArrF items # st' \<Rightarrow> deliver (JArr (rev items)) st'
     | ObjF ms # st' \<Rightarrow> deliver (JObj ms) st'
     | _ \<Rightarrow> Inl Syntax)"

definition parse_step :: "mode \<Rightarrow> frame list \<Rightarrow> token \<Rightarrow> fault + (mode \<times> frame list)" where
  "parse_step m st t =
    (case m of
       MValue just_opened \<Rightarrow>
         if just_opened \<and> t = TRBrack then close_top st else parse_value t st
     | MKey just_opened \<Rightarrow>
         (case t of
            TRBrace \<Rightarrow> if just_opened then close_top st else Inl Syntax
          | TString k \<Rightarrow> Inr (MColon, KeyF k # st)
          | _ \<Rightarrow> Inl Syntax)
     | MColon \<Rightarrow> (case t of TColon \<Rightarrow> Inr (MValue False, st) | _ \<Rightarrow> Inl Syntax)
     | MAfter \<Rightarrow>
         (case st of
            ArrF items # st' \<Rightarrow>
              (case t of TComma \<Rightarrow> Inr (MValue False, st) | TRBrack \<Rightarrow> close_top st
               | _ \<Rightarrow> Inl Syntax)
          | ObjF ms # st' \<Rightarrow>
              (case t of TComma \<Rightarrow> Inr (MKey False, st) | TRBrace \<Rightarrow> close_top st
               | _ \<Rightarrow> Inl Syntax)
          | _ \<Rightarrow> Inl Syntax)
     | MDone v \<Rightarrow> Inl Syntax)"

fun parse_from :: "mode \<Rightarrow> frame list \<Rightarrow> token list \<Rightarrow> fault + json" where
  "parse_from m st [] = (case m of MDone v \<Rightarrow> Inr v | _ \<Rightarrow> Inl Syntax)"
| "parse_from m st (t # ts) =
    (case parse_step m st t of Inl e \<Rightarrow> Inl e | Inr (m', st') \<Rightarrow> parse_from m' st' ts)"

definition JSON_parse :: "string \<Rightarrow> fault + json" where
  "JSON_parse s =
    (case tokens s of Inl e \<Rightarrow> Inl e | Inr ts \<Rightarrow> parse_from (MValue False) [] ts)"

section \<open>Stripping markdown fences\<close>

definition fence :: string where
  "fence = ''```''"

definition fence_json :: string where
  "fence_json = ''```json''"

text \<open>
  The lazy \<open>[\s\S]*?```\<close>: the text up to the first fence and the text after that fence,
  or \<open>None\<close> when there is no fence.
\<close>

fun find_close :: "string \<Rightarrow> (string \<times> string) option" where
  "find_close [] = None"
| "find_close (c # cs) =
    (if prefix fence (c # cs) then Some ([], drop (length fence) (c # cs))
     else (case find_close cs of None \<Rightarrow> None | Some (inner, rest) \<Rightarrow> Some (c # inner, rest)))"

lemma find_close_length:
  "find_close s = Some (inner, rest) \<Longrightarrow> length inner + length fence + length rest = length s"
proof (induction s arbitrary: inner)
  case Nil
  then show ?case by simp
next
  case (Cons c cs)
  show ?case
  proof (cases "prefix fence (c # cs)")
    case True
    then have "length fence \<le> length (c # cs)" by (rule prefix_length_le)
    with True Cons.prems show ?thesis by auto
  next
    case False
    with Cons.prems obtain inner' where
      "find_close cs = Some (inner', rest)" and "inner = c # inner'"
      by (auto split: option.splits)
    with Cons.IH [of inner'] show ?thesis by simp
  qed
qed

text \<open>\<open>s.replace(/```json|```/g, '')\<close> and \<open>s.replace(/```/g, '')\<close>.\<close>

function unmark_json :: "string \<Rightarrow> string" where
  "unmark_json [] = []"
| "unmark_json (c # cs) =
    (if prefix fence_json (c # cs) then unmark_json (drop (length fence_json) (c # cs))
     else if prefix fence (c # cs) then unmark_json (drop (length fence) (c # cs))
     else c # unmark_json cs)"
  by pat_completeness auto
termination
  by (relation "measure length") (auto simp: fence_def fence_json_def)

function unmark :: "string \<Rightarrow> string" where
  "unmark [] = []"
| "unmark (c # cs) =
    (if prefix fence (c # cs) then unmark (drop (length fence) (c # cs))
     else c # unmark cs)"
  by pat_completeness auto
termination
  by (relation "measure length") (auto simp: fence_def)

text \<open>
  \<open>s.replace(/<opener>[\s\S]*?```/g, f)\<close>: at the leftmost position where the opener is
  followed somewhere by a fence, the match up to the first such fence is replaced by what
  \<open>f\<close> makes of it, and the search goes on after the match.
\<close>

function replace_fenced :: "string \<Rightarrow> (string \<Rightarrow> string) \<Rightarrow> string \<Rightarrow> string" where
  "replace_fenced opener f [] = []"
| "replace_fenced opener f (c # cs) =
    (if prefix opener (c # cs) then
       (case find_close (drop (length opener) (c # cs)) of
          Some (inner, rest) \<Rightarrow> f (opener @ inner @ fence) @ replace_fenced opener f rest
        | None \<Rightarrow> c # replace_fenced opener f cs)
     else c # replace_fenced opener f cs)"
  by pat_completeness auto
termination
proof (relation "measure (\<lambda>(opener, f, s). length s)")
  show "wf (measure (\<lambda>(opener, f, s). length s))" by simp
next
  fix opener :: string and f :: "string \<Rightarrow> string" and c cs x2 inner rest
  assume "find_close (drop (length opener) (c # cs)) = Some x2" and "(inner, rest) = x2"
  then have "find_close (drop (length opener) (c # cs)) = Some (inner, rest)" by simp
  then have "length rest < length (c # cs)"
    by (auto dest!: find_close_length simp: fence_def)
  then show "((opener, f, rest), opener, f, c # cs) \<in> measure (\<lambda>(opener, f, s). length s)"
    by simp
qed auto

text \<open>
  \<^verbatim>\<open>raw.replace(/```json[\s\S]*?```/g, s => s.replace(/```json|```/g, '').trim())
     .replace(/```[\s\S]*?```/g,    s => s.replace(/```/g, '').trim())
     .trim()\<close>
  (the same in index.ts and in api/ai-edit.js).
\<close>

definition strip_fences :: "string \<Rightarrow> string" where
  "strip_fences raw =
    trim (replace_fenced fence (\<lambda>s. trim (unmark s))
           (replace_fenced fence_json (\<lambda>s. trim (unmark_json s)) raw))"

text \<open>The slice from the first \<open>{\<close> to the last \<open>}\<close>, when both exist.\<close>

definition json_span :: "string \<Rightarrow> string option" where
  "json_span clean =
    (case (indexOf clean (CHR ''{''), lastIndexOf clean (CHR ''}'')) of
       (Some jsonStart, Some jsonEnd) \<Rightarrow> Some (slice clean jsonStart (jsonEnd + 1))
     | _ \<Rightarrow> None)"

subsection \<open>parseAlternatives in supabase/functions/ai-edit/index.ts\<close>

definition ts_parseAlternatives :: "string \<Rightarrow> fault + json" where
  "ts_parseAlternatives raw =
    (case json_span (strip_fences raw) of
       None \<Rightarrow> Inl (Thrown ''No JSON object found in model response'')
     | Some text \<Rightarrow> JSON_parse text)"

text \<open>The handler from the raw text of the model on: every exception of
  \<open>parseAlternatives\<close> is answered by \<open>parse_failed\<close> with the raw text.\<close>

definition ts_recover :: "string \<Rightarrow> string outcome" where
  "ts_recover raw =
    (case ts_parseAlternatives raw of
       Inl Unsupported \<Rightarrow> NotModelled
     | Inl e \<Rightarrow> Response 200 (ParseFailed raw)
     | Inr parsed \<Rightarrow> ts_finish parsed)"

subsection \<open>parseAlternatives in api/ai-edit.js\<close>

definition js_parseAlternatives :: "string \<Rightarrow> fault + json" where
  "js_parseAlternatives raw =
    (case json_span (strip_fences raw) of
       None \<Rightarrow> Inl (Thrown ''No JSON object found'')
     | Some text \<Rightarrow>
        (case JSON_parse text of Inl e \<Rightarrow> Inl e
         | Inr parsed \<Rightarrow>
            (case get_prop parsed ''alternatives'' of None \<Rightarrow> Inl TypeError
             | Some a \<Rightarrow>
                if \<not> truthy a \<or> \<not> isArray a then Inl (Thrown ''Missing alternatives array'')
                else Inr parsed)))"

definition js_recover :: "string \<Rightarrow> json outcome" where
  "js_recover raw =
    (case js_parseAlternatives raw of
       Inl Unsupported \<Rightarrow> NotModelled
     | Inl e \<Rightarrow> Response 200 (ParseFailed raw)
     | Inr result \<Rightarrow> js_finish result)"

subsection \<open>The parse section of api/edit.js\<close>

text \<open>
  \<^verbatim>\<open>raw.replace(/```json[\s\S]*?```|```[\s\S]*?```/g, s => s.replace(/```json|```/g, '').trim())\<close>:
  one pass, the alternative with the \<open>json\<close> tag tried first at each position.
\<close>

definition match_fenced :: "string \<Rightarrow> string \<Rightarrow> (string \<times> string) option" where
  "match_fenced opener s =
    (if prefix opener s then
       (case find_close (drop (length opener) s) of
          Some (inner, rest) \<Rightarrow> Some (opener @ inner @ fence, rest)
        | None \<Rightarrow> None)
     else None)"

lemma match_fenced_length:
  "match_fenced opener s = Some (m, rest) \<Longrightarrow> s \<noteq> [] \<Longrightarrow> length rest < length s"
  by (auto simp: match_fenced_def fence_def split: if_splits option.splits
           dest!: find_close_length)

function replace_either :: "(string \<Rightarrow> string) \<Rightarrow> string \<Rightarrow> string" where
  "replace_either f [] = []"
| "replace_either f (c # cs) =
    (case match_fenced fence_json (c # cs) of
       Some (m, rest) \<Rightarrow> f m @ replace_either f rest
     | None \<Rightarrow>
        (case match_fenced fence (c # cs) of
           Some (m, rest) \<Rightarrow> f m @ replace_either f rest
         | None \<Rightarrow> c # replace_either f cs))"
  by pat_completeness auto
termination
proof (relation "measure (\<lambda>(f, s). length s)")
  show "wf (measure (\<lambda>(f, s). length s))" by simp
next
  fix f :: "string \<Rightarrow> string" and c cs x2 m rest
  assume "match_fenced fence_json (c # cs) = Some x2" and "(m, rest) = x2"
  then have "match_fenced fence_json (c # cs) = Some (m, rest)" by simp
  then have "length rest < length (c # cs)" by (rule match_fenced_length) simp
  then show "((f, rest), f, c # cs) \<in> measure (\<lambda>(f, s). length s)" by simp
next
  fix f :: "string \<Rightarrow> string" and c cs x2 m rest
  assume "match_fenced fence (c # cs) = Some x2" and "(m, rest) = x2"
  then have "match_fenced fence (c # cs) = Some (m, rest)" by simp
  then have "length rest < length (c # cs)" by (rule match_fenced_length) simp
  then show "((f, rest), f, c # cs) \<in> measure (\<lambda>(f, s). length s)" by simp
qed auto

text \<open>
  \<^verbatim>\<open>JSON.parse(jsonStart >= 0 ? clean.slice(jsonStart, jsonEnd + 1) : clean)\<close>:
  without a \<open>{\<close> the whole cleaned text is parsed; with a \<open>{\<close> and no \<open>}\<close> the slice
  ends at index 0 and is empty.
\<close>

definition edit_clean :: "string \<Rightarrow> string" where
  "edit_clean raw = trim (replace_either (\<lambda>s. trim (unmark_json s)) raw)"

definition edit_parse :: "string \<Rightarrow> fault + json" where
  "edit_parse raw =
    (let clean = edit_clean raw
     in JSON_parse
          (case indexOf clean (CHR ''{'') of
             Some jsonStart \<Rightarrow>
               slice clean jsonStart
                 (case lastIndexOf clean (CHR ''}'') of Some jsonEnd \<Rightarrow> jsonEnd + 1 | None \<Rightarrow> 0)
           | None \<Rightarrow> clean))"

definition edit_recover :: "string \<Rightarrow> json outcome" where
  "edit_recover raw =
    (case edit_parse raw of
       Inl Unsupported \<Rightarrow> NotModelled
     | Inl e \<Rightarrow> Response 200 (ParseFailed raw)
     | Inr result \<Rightarrow>
        (case get_prop result ''alternatives'' of None \<Rightarrow> Uncaught
         | Some a \<Rightarrow>
            if \<not> truthy a \<or> \<not> isArray a then Response 200 (ErrorMessage ''bad_schema'')
            else Response 200 (Parsed result)))"

section \<open>The prompt constants\<close>

definition lines :: "string list \<Rightarrow> string" where
  "lines ls = join_with NL ls"

text \<open>\<open>SCHEMA_3\<close> and \<open>SCHEMA_2\<close> are the same text in index.ts and in api/ai-edit.js.\<close>

definition SCHEMA_3 :: string where
  \<open>SCHEMA_3 = lines
    [''Return ONLY valid JSON '' @ em_dash @ '' no prose, no markdown fences.'',
     ''Schema (exactly 3 alternatives):'',
     ''{"alternatives":[{"label":"Option 1","text":"..."},{"label":"Option 2","text":"..."},{"label":"Option 3","text":"..."}]}'']\<close>

definition SCHEMA_2 :: string where
  \<open>SCHEMA_2 = lines
    [''Return ONLY valid JSON '' @ em_dash @ '' no prose, no markdown fences.'',
     ''Schema (exactly 2 alternatives):'',
     ''{"alternatives":[{"label":"Option 1","text":"..."},{"label":"Option 2","text":"..."}]}'']\<close>

definition apostrophe :: string where
  "apostrophe = [CHR 0x27]"

definition base_rules :: "string list" where
  "base_rules =
    [''You are a world-class editor inside a writing app.'',
     ''You will receive: note title, full note text, the exact selected text, and surrounding context.'',
     ''Your job: produce alternative rewrites of ONLY the selected text.'',
     ''Rules:'',
     bullet @ '' Do NOT edit anything outside the selection.'',
     bullet @ '' Keep consistent with the note'' @ apostrophe @ ''s voice, terminology, and style.'',
     bullet @ '' Do NOT introduce new facts not already present in the note or selection.'']"

definition ts_BASE_SYSTEM :: string where
  "ts_BASE_SYSTEM = lines (base_rules @
    [bullet @ '' Keep the same language as the selection (unless the action explicitly changes tone/style).'',
     bullet @ '' Keep roughly the same length unless the action calls for expansion or condensation.''])"

definition js_BASE_SYSTEM :: string where
  "js_BASE_SYSTEM = lines (base_rules @
    [bullet @ '' Keep the same language as the selection (unless the action changes tone/style).'',
     bullet @ '' Keep roughly the same length unless the action calls for expansion/condensation.''])"

definition instr_rewrite :: string where
  "instr_rewrite =
    ''ACTION '' @ em_dash @ '' Rewrite: improve flow and readability. Keep meaning identical.''
    @ NL @ SCHEMA_3"

definition instr_shorter :: "string \<Rightarrow> string" where
  "instr_shorter verb =
    ''ACTION '' @ em_dash @ '' Shorter: condense the selection, remove redundancy, '' @ verb @
    '' core meaning. Trim without losing essential information.'' @ NL @ SCHEMA_3"

definition instr_clearer :: string where
  "instr_clearer =
    ''ACTION '' @ em_dash @ '' Clearer: simplify sentence structure, reduce jargon, improve comprehension. ''
    @ ''Do not change meaning.'' @ NL @ SCHEMA_3"

definition instr_fix :: string where
  "instr_fix =
    ''ACTION '' @ em_dash @ '' Fix: correct grammar, spelling, and punctuation. ''
    @ ''Option 1 = minimal fix (change as little as possible). ''
    @ ''Options 2'' @ en_dash @ ''3 = slightly more polished but still fully faithful to original.''
    @ NL @ SCHEMA_3"

definition instr_expand :: string where
  "instr_expand =
    ''ACTION '' @ em_dash @ '' Expand: elaborate slightly using ONLY ideas already present in the selection or note. ''
    @ ''Do NOT introduce new facts or examples not in the note.'' @ NL @ SCHEMA_2"

definition instr_bullets :: string where
  \<open>instr_bullets =
    ''ACTION '' @ em_dash @ '' Bullets: convert the selection to a bullet list using "'' @ bullet
    @ '' " prefix for each item. Preserve ALL content '' @ em_dash @ '' just restructure.''
    @ NL @ SCHEMA_2\<close>

definition instr_example :: string where
  "instr_example =
    ''ACTION '' @ em_dash @ '' Example: add a short, generic illustrative example that does NOT introduce ''
    @ ''unverifiable facts. If that is impossible, improve clarity instead.'' @ NL @ SCHEMA_3"

definition ts_ACTION_INSTRUCTIONS :: "(string \<times> string) list" where
  "ts_ACTION_INSTRUCTIONS =
    [(''rewrite'', instr_rewrite), (''shorter'', instr_shorter ''preserve''),
     (''clearer'', instr_clearer), (''fix'', instr_fix), (''expand'', instr_expand),
     (''bullets'', instr_bullets), (''example'', instr_example)]"

definition js_ACTION_INSTRUCTIONS :: "(string \<times> string) list" where
  "js_ACTION_INSTRUCTIONS =
    [(''rewrite'', instr_rewrite), (''shorter'', instr_shorter ''keep''),
     (''clearer'', instr_clearer), (''fix'', instr_fix), (''tone'', []),
     (''expand'', instr_expand), (''bullets'', instr_bullets), (''example'', instr_example)]"

text \<open>
  \<open>ACTION_INSTRUCTIONS[action]\<close> is a member read on an object literal: a key that is not
  its own is looked up in \<open>Object.prototype\<close>. The inherited members are functions (and the
  prototype object itself for \<open>__proto__\<close>), listed here with the text the V8 engine of
  both runtimes renders them with.
\<close>

definition native_function :: "string \<Rightarrow> string" where
  "native_function name = ''function '' @ name @ ''() { [native code] }''"

definition object_prototype :: "(string \<times> string) list" where
  "object_prototype =
    (''constructor'', native_function ''Object'') #
    (''__proto__'', ''[object Object]'') #
    map (\<lambda>name. (name, native_function name))
      [''__defineGetter__'', ''__defineSetter__'', ''hasOwnProperty'', ''__lookupGetter__'',
       ''__lookupSetter__'', ''isPrototypeOf'', ''propertyIsEnumerable'', ''toString'',
       ''valueOf'', ''toLocaleString'']"

datatype member = Own string | Inherited string | Missing

definition registry_get :: "(string \<times> string) list \<Rightarrow> string \<Rightarrow> member" where
  "registry_get registry key =
    (case map_of registry key of
       Some text \<Rightarrow> Own text
     | None \<Rightarrow> (case map_of object_prototype key of Some shown \<Rightarrow> Inherited shown
                 | None \<Rightarrow> Missing))"

definition validActions :: "string list" where
  "validActions = [''rewrite'', ''shorter'', ''clearer'', ''fix'', ''tone'', ''expand'',
                   ''bullets'', ''example'']"

text \<open>
  \<open>getTemperature\<close> (the same in both files). The literals \<open>0.3\<close> and \<open>0.2\<close> denote the
  nearest doubles, which are ordered as the decimals are.
\<close>

definition getTemperature :: "string \<Rightarrow> real" where
  "getTemperature action =
    (if action = ''tone'' \<or> action = ''rewrite'' \<or> action = ''example'' then 0.3 else 0.2)"

record gen_call =
  call_model :: string
  call_max_tokens :: nat
  call_temperature :: real
  call_system :: string
  call_user :: string

record request =
  req_method :: string
  req_body :: "json option"

text \<open>
  \<open>req_body\<close> is what \<open>await req.json()\<close> yields, \<open>None\<close> when it throws.
  A member of the body that may be \<open>undefined\<close>, and the default of a destructuring
  pattern, which replaces \<open>undefined\<close> only.
\<close>

definition member_of :: "json \<Rightarrow> string \<Rightarrow> json option" where
  "member_of b k = (case get_prop b k of Some v \<Rightarrow> v | None \<Rightarrow> None)"

definition or_default :: "json option \<Rightarrow> json \<Rightarrow> json" where
  "or_default v d = (case v of None \<Rightarrow> d | Some x \<Rightarrow> x)"

text \<open>The tail \<open>action + (tone ? ` (tone: ${tone})` : "")\<close> of the user message.\<close>

definition action_line :: "string \<Rightarrow> json \<Rightarrow> string option" where
  "action_line action tone =
    (if truthy (Some tone)
     then map_option (\<lambda>t. action @ '' (tone: '' @ t @ '')'') (js_String tone)
     else Some action)"

definition tone_instruction :: "string \<Rightarrow> string" where
  "tone_instruction t =
    ''ACTION '' @ em_dash @ '' Tone ('' @ t @ ''): rewrite to match this tone: '' @ t @ ''. ''
    @ ''Keep meaning identical. Do not add new facts.'' @ NL @ SCHEMA_3"

text \<open>What a member of a registry contributes to a prompt; \<open>None\<close> is \<open>undefined\<close>.\<close>

fun shown :: "member \<Rightarrow> string option" where
  "shown (Own text) = Some text"
| "shown (Inherited text) = Some text"
| "shown Missing = None"

fun str_of :: "json option \<Rightarrow> string" where
  "str_of (Some (JStr s)) = s"
| "str_of v = []"

section \<open>The handler of supabase/functions/ai-edit/index.ts\<close>

definition ts_MODEL :: string where
  "ts_MODEL = ''claude-sonnet-4-5-20251001''"

text \<open>
  \<open>buildSystemPrompt(action, tone)\<close>. The template literal converts \<open>tone\<close> with
  \<open>String\<close>, which throws on some values; \<open>??\<close> falls back to the \<open>rewrite\<close> entry when
  the member read yields \<open>undefined\<close>.
\<close>

definition ts_buildSystemPrompt :: "string \<Rightarrow> json \<Rightarrow> string option" where
  "ts_buildSystemPrompt action tone =
    (if action = ''tone'' \<and> truthy (Some tone) then
       map_option (\<lambda>t. ts_BASE_SYSTEM @ NL @ NL @ tone_instruction t) (js_String tone)
     else
       (let instruction =
              (case shown (registry_get ts_ACTION_INSTRUCTIONS action) of
                 Some text \<Rightarrow> Some text
               | None \<Rightarrow> shown (registry_get ts_ACTION_INSTRUCTIONS ''rewrite''))
        in map_option (\<lambda>text. ts_BASE_SYSTEM @ NL @ NL @ text) instruction))"

definition ts_buildUserMessage ::
  "string \<Rightarrow> string \<Rightarrow> string \<Rightarrow> string \<Rightarrow> string \<Rightarrow> string \<Rightarrow> json \<Rightarrow> string option" where
  "ts_buildUserMessage noteTitle noteContent selectedText before after action tone =
    map_option
      (\<lambda>last_line. lines
        [''TITLE:'',
         if noteTitle \<noteq> [] then noteTitle else ''(untitled)'',
         [],
         ''FULL NOTE:'',
         if noteContent \<noteq> [] then noteContent else ''(empty)'',
         [],
         ''SELECTION:'',
         selectedText,
         [],
         ''SURROUNDING CONTEXT:'',
         ''BEFORE:'',
         if before \<noteq> [] then before else ''(start of note)'',
         ''AFTER:'',
         if after \<noteq> [] then after else ''(end of note)'',
         [],
         ''ACTION:'',
         last_line])
      (action_line action tone)"

text \<open>\<open>String(v || "")\<close>, as the handler passes the optional fields on.\<close>

definition string_or_empty :: "json \<Rightarrow> string option" where
  "string_or_empty v = js_String (truthy_or (Some v) (JStr []))"

text \<open>
  Building the two prompts for a validated request. An exception here reaches the
  last-resort \<open>catch\<close> of the handler.
\<close>

definition ts_compile ::
  "string \<Rightarrow> json \<Rightarrow> json \<Rightarrow> json \<Rightarrow> string \<Rightarrow> json \<Rightarrow> json \<Rightarrow> gen_call option" where
  "ts_compile action tone noteTitle noteContent selectedTrimmed before after =
    (case ts_buildSystemPrompt action tone of None \<Rightarrow> None
     | Some systemPrompt \<Rightarrow>
    (case string_or_empty noteTitle of None \<Rightarrow> None
     | Some title \<Rightarrow>
    (case string_or_empty noteContent of None \<Rightarrow> None
     | Some content \<Rightarrow>
    (case string_or_empty before of None \<Rightarrow> None
     | Some bef \<Rightarrow>
    (case string_or_empty after of None \<Rightarrow> None
     | Some aft \<Rightarrow>
    (case ts_buildUserMessage title content selectedTrimmed bef aft action tone of
       None \<Rightarrow> None
     | Some userMessage \<Rightarrow>
         Some \<lparr>call_model = ts_MODEL, call_max_tokens = 2000,
               call_temperature = getTemperature action,
               call_system = systemPrompt, call_user = userMessage\<rparr>))))))"

text \<open>
  The handler up to the call of the generator: it answers at once (\<open>Inl\<close>) or has a
  request for the generator (\<open>Inr\<close>). Destructuring the body throws when the body is
  \<open>null\<close>.
\<close>

definition ts_process :: "json \<Rightarrow> string outcome + gen_call" where
  \<open>ts_process body =
    (case get_prop body ''action'' of None \<Rightarrow> Inl (Response 500 UnhandledError)
     | Some action \<Rightarrow>
        (let tone = or_default (member_of body ''tone'') JNull;
             noteTitle = or_default (member_of body ''noteTitle'') (JStr []);
             noteContent = or_default (member_of body ''noteContent'') (JStr []);
             selectedText = member_of body ''selectedText'';
             before = or_default (member_of body ''before'') (JStr []);
             after = or_default (member_of body ''after'') (JStr [])
         in if \<not> truthy action \<or> \<not> is_string action
            then Inl (Response 400 (ErrorMessage ''Missing or invalid "action"''))
            else
             (case js_String (nullish_or selectedText (JStr [])) of
                None \<Rightarrow> Inl (Response 500 UnhandledError)
              | Some text \<Rightarrow>
                 (let selectedTrimmed = trim text in
                  if selectedTrimmed = []
                  then Inl (Response 400 (ErrorMessage ''Missing or empty "selectedText"''))
                  else if str_of action \<notin> set validActions
                  then Inl (Response 400 (ErrorMessage (''Unknown action: '' @ str_of action)))
                  else if str_of action = ''tone'' \<and> \<not> truthy (Some tone)
                  then Inl (Response 400
                         (ErrorMessage ''"tone" value is required when action is "tone"''))
                  else
                   (case ts_compile (str_of action) tone noteTitle noteContent
                           selectedTrimmed before after of
                      None \<Rightarrow> Inl (Response 500 UnhandledError)
                    | Some call \<Rightarrow> Inr call)))))\<close>

definition ts_accept :: "string option \<Rightarrow> request \<Rightarrow> string outcome + gen_call" where
  "ts_accept apiKey req =
    (if req_method req = ''OPTIONS'' then Inl (Response 200 (Plain ''ok''))
     else if req_method req \<noteq> ''POST''
     then Inl (Response 405 (ErrorMessage ''Method not allowed''))
     else if apiKey = None \<or> apiKey = Some []
     then Inl (Response 500 (ErrorMessage ''API key not configured''))
     else (case req_body req of
             None \<Rightarrow> Inl (Response 400 (ErrorMessage ''Invalid JSON body''))
           | Some body \<Rightarrow> ts_process body))"

text \<open>
  What the generator is asked and what comes back: a network failure, a status that is
  not a success, or the raw text of the first content block.
\<close>

datatype gen_reply = NetworkFailure | BadStatus nat | RawText string

definition ts_handler ::
  "string option \<Rightarrow> (gen_call \<Rightarrow> gen_reply) \<Rightarrow> request \<Rightarrow> string outcome" where
  "ts_handler apiKey generate req =
    (case ts_accept apiKey req of
       Inl answer \<Rightarrow> answer
     | Inr call \<Rightarrow>
        (case generate call of
           NetworkFailure \<Rightarrow> Response 502 (ErrorMessage ''Network error reaching AI'')
         | BadStatus status \<Rightarrow>
             Response 502 (ErrorMessage (''AI API error: '' @ string_of_nat status))
         | RawText raw \<Rightarrow> ts_recover raw))"

section \<open>The handler of api/ai-edit.js\<close>

definition js_MODEL :: string where
  "js_MODEL = ''claude-sonnet-4-6''"

definition bind_fault :: "fault + 'a \<Rightarrow> ('a \<Rightarrow> fault + 'b) \<Rightarrow> fault + 'b" where
  "bind_fault m f = (case m of Inl e \<Rightarrow> Inl e | Inr x \<Rightarrow> f x)"

definition of_option :: "'a option \<Rightarrow> fault + 'a" where
  "of_option m = (case m of None \<Rightarrow> Inl TypeError | Some x \<Rightarrow> Inr x)"

text \<open>\<open>if (v) lines.push(`<bullet><caption>${v}`)\<close>\<close>

definition profile_line :: "string \<Rightarrow> json option \<Rightarrow> fault + string list" where
  "profile_line caption v =
    (case v of
       None \<Rightarrow> Inr []
     | Some x \<Rightarrow>
        if truthy v
        then of_option (map_option (\<lambda>s. [bullet @ caption @ s]) (js_String x))
        else Inr [])"

text \<open>
  \<open>n > 0\<close> for the \<open>length\<close> member of an object. The conversion of a string or an array
  to a number is outside the embedding.
\<close>

fun positive :: "json \<Rightarrow> fault + bool" where
  "positive JNull = Inr False"
| "positive (JBool b) = Inr b"
| "positive (JNum n) = Inr (\<not> num_zero n \<and> \<not> prefix ''-'' (num_text n))"
| "positive (JStr s) = Inl Unsupported"
| "positive (JArr xs) = Inl Unsupported"
| "positive (JObj kvs) = (if ''toString'' \<in> fst ` set kvs then Inl TypeError else Inr False)"

text \<open>
  \<^verbatim>\<open>if (userProfile.languages && userProfile.languages.length > 0)
     lines.push(`<bullet> Languages: ${userProfile.languages.join(', ')}`)\<close>
  Only an array has a \<open>join\<close> to call; booleans and numbers have no \<open>length\<close>.
\<close>

definition languages_line :: "json option \<Rightarrow> fault + string list" where
  "languages_line v =
    (if \<not> truthy v then Inr []
     else
      (case v of
         Some (JArr xs) \<Rightarrow>
           if length xs > 0
           then of_option (map_option (\<lambda>s. [bullet @ '' Languages: '' @ s]) (js_join '', '' xs))
           else Inr []
       | Some (JStr s) \<Rightarrow> Inl TypeError
       | Some (JObj kvs) \<Rightarrow>
           (case map_of kvs ''length'' of
              None \<Rightarrow> Inr []
            | Some n \<Rightarrow>
               bind_fault (positive n) (\<lambda>pos. if pos then Inl TypeError else Inr []))
       | _ \<Rightarrow> Inr []))"

text \<open>
  \<^verbatim>\<open>if (userProfile.style_notes && userProfile.style_notes.trim())
     lines.push(`<bullet> Style notes: ${userProfile.style_notes.trim()}`)\<close>
\<close>

definition style_line :: "json option \<Rightarrow> fault + string list" where
  "style_line v =
    (if \<not> truthy v then Inr []
     else
      (case v of
         Some (JStr s) \<Rightarrow>
           if trim s \<noteq> [] then Inr [bullet @ '' Style notes: '' @ trim s] else Inr []
       | _ \<Rightarrow> Inl TypeError))"

definition buildProfileContext :: "json \<Rightarrow> fault + string" where
  "buildProfileContext userProfile =
    (if \<not> truthy (Some userProfile) then Inr []
     else
      bind_fault (profile_line '' Preferred tone: '' (member_of userProfile ''tone'')) (\<lambda>l1.
      bind_fault (profile_line '' Target audience: '' (member_of userProfile ''audience'')) (\<lambda>l2.
      bind_fault (profile_line '' Writing intent: '' (member_of userProfile ''intent'')) (\<lambda>l3.
      bind_fault (languages_line (member_of userProfile ''languages'')) (\<lambda>l4.
      bind_fault (style_line (member_of userProfile ''style_notes'')) (\<lambda>l5.
        (let ls = l1 @ l2 @ l3 @ l4 @ l5
         in Inr (if ls = [] then []
                 else NL @ NL
                      @ ''AUTHOR PROFILE (adapt your output to match these preferences):''
                      @ NL @ lines ls))))))))"

text \<open>
  \<open>buildSystemPrompt(action, tone, userProfile)\<close>; \<open>||\<close> falls back to the \<open>rewrite\<close>
  entry when the member read is falsy (\<open>undefined\<close>, or the empty entry of \<open>tone\<close>).
\<close>

definition js_buildSystemPrompt :: "string \<Rightarrow> json \<Rightarrow> json \<Rightarrow> fault + string" where
  "js_buildSystemPrompt action tone userProfile =
    bind_fault (buildProfileContext userProfile) (\<lambda>profileCtx.
      if action = ''tone'' \<and> truthy (Some tone) then
        of_option (map_option
          (\<lambda>t. js_BASE_SYSTEM @ profileCtx @ NL @ NL @ tone_instruction t) (js_String tone))
      else
        (let instruction =
               (case shown (registry_get js_ACTION_INSTRUCTIONS action) of
                  Some text \<Rightarrow>
                    if text \<noteq> [] then Some text
                    else shown (registry_get js_ACTION_INSTRUCTIONS ''rewrite'')
                | None \<Rightarrow> shown (registry_get js_ACTION_INSTRUCTIONS ''rewrite''))
         in of_option (map_option
              (\<lambda>text. js_BASE_SYSTEM @ profileCtx @ NL @ NL @ text) instruction)))"

text \<open>\<open>(selectionContext && selectionContext.k) || ''\<close>\<close>

definition context_part :: "json \<Rightarrow> string \<Rightarrow> json" where
  "context_part selectionContext k =
    truthy_or (if truthy (Some selectionContext) then member_of selectionContext k
               else Some selectionContext)
              (JStr [])"

definition js_buildUserMessage ::
  "json \<Rightarrow> json \<Rightarrow> string \<Rightarrow> json \<Rightarrow> string \<Rightarrow> json \<Rightarrow> string option" where
  "js_buildUserMessage noteTitle noteContent selectedText selectionContext action tone =
    (let before = context_part selectionContext ''before'';
         after = context_part selectionContext ''after''
     in case action_line action tone of None \<Rightarrow> None
        | Some last_line \<Rightarrow>
            js_join NL
              [JStr ''TITLE:'',
               truthy_or (Some noteTitle) (JStr ''(untitled)''),
               JStr [],
               JStr ''FULL NOTE:'',
               truthy_or (Some noteContent) (JStr ''(empty)''),
               JStr [],
               JStr ''SELECTION:'',
               JStr selectedText,
               JStr [],
               JStr ''SURROUNDING CONTEXT:'',
               JStr ''BEFORE:'',
               truthy_or (Some before) (JStr ''(start of note)''),
               JStr ''AFTER:'',
               truthy_or (Some after) (JStr ''(end of note)''),
               JStr [],
               JStr ''ACTION:'',
               JStr last_line])"

definition js_compile ::
  "string \<Rightarrow> json \<Rightarrow> json \<Rightarrow> json \<Rightarrow> json \<Rightarrow> string \<Rightarrow> json \<Rightarrow> fault + gen_call" where
  "js_compile action tone userProfile noteTitle noteContent selectedTrimmed selectionContext =
    bind_fault (js_buildSystemPrompt action tone userProfile) (\<lambda>systemPrompt.
    bind_fault (of_option (js_buildUserMessage noteTitle noteContent selectedTrimmed
                             selectionContext action tone)) (\<lambda>userMessage.
      Inr \<lparr>call_model = js_MODEL, call_max_tokens = 2000,
           call_temperature = getTemperature action,
           call_system = systemPrompt, call_user = userMessage\<rparr>))"

text \<open>
  The handler up to the call of the generator. Nothing catches an exception here:
  destructuring a \<open>null\<close> body, \<open>selectedText.trim()\<close> on a truthy value that is not a
  string, or a conversion that throws while the prompts are built.
\<close>

definition js_process :: "json \<Rightarrow> json outcome + gen_call" where
  \<open>js_process body =
    (case get_prop body ''action'' of None \<Rightarrow> Inl Uncaught
     | Some action \<Rightarrow>
        (let tone = or_default (member_of body ''tone'') JNull;
             noteTitle = or_default (member_of body ''noteTitle'') (JStr []);
             noteContent = or_default (member_of body ''noteContent'') (JStr []);
             selectedText = member_of body ''selectedText'';
             selectionContext = or_default (member_of body ''selectionContext'') (JObj []);
             userProfile = or_default (member_of body ''userProfile'') JNull
         in if \<not> truthy action \<or> \<not> is_string action
            then Inl (Response 400 (ErrorMessage ''Missing or invalid "action"''))
            else if \<not> truthy selectedText
            then Inl (Response 400 (ErrorMessage ''Missing or empty "selectedText"''))
            else
             (case selectedText of
                Some (JStr text) \<Rightarrow>
                  if trim text = []
                  then Inl (Response 400 (ErrorMessage ''Missing or empty "selectedText"''))
                  else if str_of action \<notin> set validActions
                  then Inl (Response 400 (ErrorMessage (''Unknown action: '' @ str_of action)))
                  else if str_of action = ''tone'' \<and> \<not> truthy (Some tone)
                  then Inl (Response 400
                         (ErrorMessage ''"tone" value required when action is "tone"''))
                  else
                   (case js_compile (str_of action) tone userProfile noteTitle noteContent
                           (trim text) selectionContext of
                      Inl Unsupported \<Rightarrow> Inl NotModelled
                    | Inl e \<Rightarrow> Inl Uncaught
                    | Inr call \<Rightarrow> Inr call)
              | _ \<Rightarrow> Inl Uncaught)))\<close>

definition js_accept :: "string option \<Rightarrow> request \<Rightarrow> json outcome + gen_call" where
  "js_accept apiKey req =
    (if req_method req \<noteq> ''POST''
     then Inl (Response 405 (ErrorMessage ''Method not allowed''))
     else if apiKey = None \<or> apiKey = Some []
     then Inl (Response 500 (ErrorMessage ''API key not configured''))
     else (case req_body req of
             None \<Rightarrow> Inl (Response 400 (ErrorMessage ''Invalid JSON body''))
           | Some body \<Rightarrow> js_process body))"

definition js_handler ::
  "string option \<Rightarrow> (gen_call \<Rightarrow> gen_reply) \<Rightarrow> request \<Rightarrow> json outcome" where
  "js_handler apiKey generate req =
    (case js_accept apiKey req of
       Inl answer \<Rightarrow> answer
     | Inr call \<Rightarrow>
        (case generate call of
           NetworkFailure \<Rightarrow> Response 502 (ErrorMessage ''Network error reaching AI'')
         | BadStatus status \<Rightarrow>
             Response 502 (ErrorMessage (''AI API error: '' @ string_of_nat status))
         | RawText raw \<Rightarrow> js_recover raw))"

text \<open>Whether the handler goes on to call the generator.\<close>

definition calls_generator :: "'a + gen_call \<Rightarrow> bool" where
  "calls_generator step = (case step of Inl answer \<Rightarrow> False | Inr call \<Rightarrow> True)"

subsection \<open>Values of the documented types\<close>





section \<open>Properties of the recovery of a result\<close>

subsection \<open>Auxiliary facts\<close>

lemma indexOf_None: "indexOf s c = None \<longleftrightarrow> c \<notin> set s"
  by (induction s) auto

lemma lastIndexOf_None: "lastIndexOf s c = None \<longleftrightarrow> c \<notin> set s"
  using indexOf_None [of "rev s" c] by (auto simp: lastIndexOf_def split: option.splits)

lemma json_span_None:
  "json_span clean = None \<longleftrightarrow> (CHR ''{'' \<notin> set clean \<or> CHR ''}'' \<notin> set clean)"
  using indexOf_None [of clean "CHR ''{''"] lastIndexOf_None [of clean "CHR ''}''"]
  by (cases "indexOf clean (CHR ''{'')"; cases "lastIndexOf clean (CHR ''}'')")
     (simp_all add: json_span_def)

lemma ts_map_nth:
  "ts_map k alts = Some es \<Longrightarrow>
     length es = length alts \<and> (\<forall>i < length alts. ts_entry (k + i) (alts ! i) = Some (es ! i))"
proof (induction alts arbitrary: k es)
  case Nil
  then show ?case by simp
next
  case (Cons a alts)
  from Cons.prems obtain e es' where
    e: "ts_entry k a = Some e" and es': "ts_map (Suc k) alts = Some es'" and es: "es = e # es'"
    by (auto split: option.splits)
  from Cons.IH [OF es'] have len: "length es' = length alts"
    and nth: "\<And>i. i < length alts \<Longrightarrow> ts_entry (Suc k + i) (alts ! i) = Some (es' ! i)"
    by auto
  show ?case
  proof (intro conjI allI impI)
    show "length es = length (a # alts)" using len es by simp
  next
    fix i assume "i < length (a # alts)"
    then show "ts_entry (k + i) ((a # alts) ! i) = Some (es ! i)"
      using e es nth by (cases i) auto
  qed
qed

lemma js_map_nth:
  "js_map k alts = Some es \<Longrightarrow>
     length es = length alts \<and> (\<forall>i < length alts. js_entry (k + i) (alts ! i) = Some (es ! i))"
proof (induction alts arbitrary: k es)
  case Nil
  then show ?case by simp
next
  case (Cons a alts)
  from Cons.prems obtain e es' where
    e: "js_entry k a = Some e" and es': "js_map (Suc k) alts = Some es'" and es: "es = e # es'"
    by (auto split: option.splits)
  from Cons.IH [OF es'] have len: "length es' = length alts"
    and nth: "\<And>i. i < length alts \<Longrightarrow> js_entry (Suc k + i) (alts ! i) = Some (es' ! i)"
    by auto
  show ?case
  proof (intro conjI allI impI)
    show "length es = length (a # alts)" using len es by simp
  next
    fix i assume "i < length (a # alts)"
    then show "js_entry (k + i) ((a # alts) ! i) = Some (es ! i)"
      using e es nth by (cases i) auto
  qed
qed

lemma ts_map_null: "JNull \<in> set alts \<Longrightarrow> ts_map k alts = None"
  by (induction alts arbitrary: k) (auto simp: ts_entry_def split: option.splits)

lemma js_map_null: "JNull \<in> set alts \<Longrightarrow> js_map k alts = None"
  by (induction alts arbitrary: k) (auto simp: js_entry_def split: option.splits)

lemma js_filter_kept:
  "js_filter es = Some kept \<Longrightarrow>
     \<forall>e \<in> set kept. trim (snd e) \<noteq> [] \<and> (fst e, JStr (snd e)) \<in> set es"
proof (induction es arbitrary: kept rule: js_filter.induct)
  case 1
  then show ?case by simp
next
  case (2 l s alts)
  then show ?case by (auto split: option.splits if_splits)
qed simp_all

lemma ts_entry_absent_label:
  "ts_entry i alt = Some e \<Longrightarrow> member_of alt ''label'' = None \<Longrightarrow> fst e = option_label i"
  by (auto simp: ts_entry_def member_of_def split: option.splits)

lemma ts_entry_string_label:
  "ts_entry i alt = Some e \<Longrightarrow> member_of alt ''label'' = Some (JStr s) \<Longrightarrow> fst e = s"
  by (auto simp: ts_entry_def member_of_def split: option.splits)

lemma js_entry_absent_label:
  "js_entry i alt = Some e \<Longrightarrow> member_of alt ''label'' = None \<Longrightarrow> fst e = JStr (option_label i)"
  by (auto simp: js_entry_def member_of_def truthy_or_def split: option.splits)

lemma js_entry_string_label:
  "js_entry i alt = Some e \<Longrightarrow> member_of alt ''label'' = Some (JStr s) \<Longrightarrow> s \<noteq> [] \<Longrightarrow>
     fst e = JStr s"
  by (auto simp: js_entry_def member_of_def truthy_or_def split: option.splits)

subsection \<open>The index of the placeholder label\<close>

text \<open>
  C9. The placeholder \<open>Option N\<close> is numbered by the position of the entry in the parsed
  array, before the entries with empty text are dropped: an entry at index \<open>i\<close> without a
  label is given \<open>Option (i + 1)\<close> by the \<open>map\<close> step of both handlers. So the
  alternatives \<open>[{"text":""},{"text":"B"}]\<close> come back as the single alternative
  \<open>Option 2\<close>, \<open>B\<close>, and no \<open>Option 1\<close>.
\<close>

theorem placeholder_numbered_before_filter:
  assumes "i < length alts" and "member_of (alts ! i) ''label'' = None"
  shows \<open>(\<forall>es. ts_map 0 alts = Some es \<longrightarrow> fst (es ! i) = option_label i) \<and>
         (\<forall>es. js_map 0 alts = Some es \<longrightarrow> fst (es ! i) = JStr (option_label i)) \<and>
         ts_recover ''{"alternatives":[{"text":""},{"text":"B"}]}''
           = Response 200 (Alternatives [(''Option 2'', ''B'')] []) \<and>
         js_recover ''{"alternatives":[{"text":""},{"text":"B"}]}''
           = Response 200 (Alternatives [(JStr ''Option 2'', ''B'')] [])\<close>
proof (intro conjI allI impI)
  fix es assume "ts_map 0 alts = Some es"
  then have "ts_entry i (alts ! i) = Some (es ! i)"
    using ts_map_nth [of 0 alts es] assms(1) by simp
  then show "fst (es ! i) = option_label i"
    using assms(2) by (rule ts_entry_absent_label)
next
  fix es assume "js_map 0 alts = Some es"
  then have "js_entry i (alts ! i) = Some (es ! i)"
    using js_map_nth [of 0 alts es] assms(1) by simp
  then show "fst (es ! i) = JStr (option_label i)"
    using assms(2) by (rule js_entry_absent_label)
next
  show \<open>ts_recover ''{"alternatives":[{"text":""},{"text":"B"}]}''
          = Response 200 (Alternatives [(''Option 2'', ''B'')] [])\<close>
    by code_simp
next
  show \<open>js_recover ''{"alternatives":[{"text":""},{"text":"B"}]}''
          = Response 200 (Alternatives [(JStr ''Option 2'', ''B'')] [])\<close>
    by code_simp
qed

theorem placeholder_numbered_before_filter_witness:
  \<open>(1::nat) < length [JObj [(''text'', JStr [])], JObj [(''text'', JStr ''B'')]] \<and>
   member_of ([JObj [(''text'', JStr [])], JObj [(''text'', JStr ''B'')]] ! 1) ''label'' = None \<and>
   ts_map 0 [JObj [(''text'', JStr [])], JObj [(''text'', JStr ''B'')]]
     = Some [(''Option 1'', []), (''Option 2'', ''B'')] \<and>
   fst ([(''Option 1'', []), (''Option 2'', ''B'')] ! 1) = option_label 1 \<and>
   js_map 0 [JObj [(''text'', JStr [])], JObj [(''text'', JStr ''B'')]]
     = Some [(JStr ''Option 1'', JStr []), (JStr ''Option 2'', JStr ''B'')] \<and>
   fst ([(JStr ''Option 1'', JStr []), (JStr ''Option 2'', JStr ''B'')] ! 1)
     = JStr (option_label 1)\<close>
proof -
  let ?alts = "[JObj [(''text'', JStr [])], JObj [(''text'', JStr ''B'')]]"
  have len: "(1::nat) < length ?alts" by simp
  have absent: "member_of (?alts ! 1) ''label'' = None" by (simp add: member_of_def)
  have ts: "ts_map 0 ?alts = Some [(''Option 1'', []), (''Option 2'', ''B'')]" by code_simp
  have js: "js_map 0 ?alts = Some [(JStr ''Option 1'', JStr []), (JStr ''Option 2'', JStr ''B'')]"
    by code_simp
  from placeholder_numbered_before_filter [OF len absent] ts js
  show ?thesis using len absent by simp
qed

subsection \<open>Entries that make the normalisation throw\<close>

lemma ts_entry_scalar:
  "ts_entry i (JNum n) = Some (option_label i, [])"
  "ts_entry i (JStr s) = Some (option_label i, [])"
  "ts_entry i (JBool b) = Some (option_label i, [])"
  by (simp_all add: ts_entry_def)

lemma js_entry_scalar:
  "js_entry i (JNum n) = Some (JStr (option_label i), JStr [])"
  "js_entry i (JStr s) = Some (JStr (option_label i), JStr [])"
  "js_entry i (JBool b) = Some (JStr (option_label i), JStr [])"
  by (simp_all add: js_entry_def truthy_or_def)

text \<open>
  C10 (as amended). If the \<open>alternatives\<close> array contains a \<open>null\<close> entry, reading its
  label throws: the Supabase function answers with status 500 from its last-resort
  \<open>catch\<close>, and in api/ai-edit.js the exception leaves the handler uncaught. Neither
  produces one of the degraded answers with status 200. An entry that is a number, a
  string or a boolean does not throw: its \<open>label\<close> and \<open>text\<close> read as \<open>undefined\<close>, and
  the map step of both handlers gives it the placeholder label and the empty text.
\<close>

theorem null_entry_escapes_recovery:
  assumes "get_prop parsed ''alternatives'' = Some (Some (JArr alts))" and "JNull \<in> set alts"
  shows \<open>ts_finish parsed = Response 500 UnhandledError \<and> js_finish parsed = Uncaught \<and>
         ts_recover ''{"alternatives":[{"text":"A"},null]}'' = Response 500 UnhandledError \<and>
         js_recover ''{"alternatives":[{"text":"A"},null]}'' = Uncaught \<and>
         ts_entry i (JNum n) = Some (option_label i, []) \<and>
         ts_entry i (JStr s) = Some (option_label i, []) \<and>
         ts_entry i (JBool b) = Some (option_label i, []) \<and>
         js_entry i (JNum n) = Some (JStr (option_label i), JStr []) \<and>
         js_entry i (JStr s) = Some (JStr (option_label i), JStr []) \<and>
         js_entry i (JBool b) = Some (JStr (option_label i), JStr [])\<close>
proof (intro conjI)
  show "ts_finish parsed = Response 500 UnhandledError"
    using assms by (simp add: ts_finish_def ts_normalise_def ts_map_null)
  show "js_finish parsed = Uncaught"
    using assms by (simp add: js_finish_def js_normalise_def js_map_null)
  show \<open>ts_recover ''{"alternatives":[{"text":"A"},null]}'' = Response 500 UnhandledError\<close>
    by code_simp
  show \<open>js_recover ''{"alternatives":[{"text":"A"},null]}'' = Uncaught\<close>
    by code_simp
qed (simp_all add: ts_entry_scalar js_entry_scalar)

theorem null_entry_escapes_recovery_witness:
  "get_prop (JObj [(''alternatives'', JArr [JNull])]) ''alternatives'' = Some (Some (JArr [JNull]))
   \<and> JNull \<in> set [JNull]
   \<and> ts_finish (JObj [(''alternatives'', JArr [JNull])]) = Response 500 UnhandledError
   \<and> js_finish (JObj [(''alternatives'', JArr [JNull])]) = Uncaught"
proof -
  have a: "get_prop (JObj [(''alternatives'', JArr [JNull])]) ''alternatives''
             = Some (Some (JArr [JNull]))"
    by simp
  have b: "JNull \<in> set [JNull]" by simp
  from null_entry_escapes_recovery [OF a b] a b show ?thesis by simp
qed

text \<open>
  The claim as first stated spoke of any entry that is not an object. A number is such an
  entry, and it is normalised without an exception; the request ends in a degraded answer
  with status 200.
\<close>

theorem number_entry_does_not_throw:
  \<open>ts_map 0 [JNum (JsNum False ''5'')] = Some [(''Option 1'', [])] \<and>
   ts_recover ''{"alternatives":[5]}'' = Response 200 (ErrorMessage ''empty_alternatives'') \<and>
   js_recover ''{"alternatives":[5]}'' = Response 200 (ErrorMessage ''bad_schema'')\<close>
proof (intro conjI)
  show "ts_map 0 [JNum (JsNum False ''5'')] = Some [(''Option 1'', [])]" by code_simp
  show \<open>ts_recover ''{"alternatives":[5]}'' = Response 200 (ErrorMessage ''empty_alternatives'')\<close>
    by code_simp
  show \<open>js_recover ''{"alternatives":[5]}'' = Response 200 (ErrorMessage ''bad_schema'')\<close>
    by code_simp
qed

subsection \<open>The outcome of the normalisation\<close>

lemma js_filter_strings:
  "\<forall>e \<in> set es. is_string (Some (snd e)) \<Longrightarrow>
     js_filter es =
       Some (map (\<lambda>e. (fst e, str_of (Some (snd e))))
                 [e \<leftarrow> es. trim (str_of (Some (snd e))) \<noteq> []])"
proof (induction es)
  case Nil
  show ?case by simp
next
  case (Cons e es)
  obtain l t where e: "e = (l, t)" by (cases e)
  from Cons.prems e have "is_string (Some t)" by simp
  then obtain s where t: "t = JStr s" by (cases t) simp_all
  from Cons show ?case by (simp add: e t)
qed

text \<open>
  C1 (as amended). When \<open>alternatives\<close> is an array whose entries can be coerced (the map
  step does not throw; for api/ai-edit.js also: every coerced text is a string, so that it
  can be trimmed), each entry is coerced at its index, the entries whose trimmed text is
  empty are dropped and all the others are kept, in their order, and
  \<^item> in the Supabase function, no entry left is answered by \<open>empty_alternatives\<close> with
    status 200, and one entry or more are all returned, however few they are;
  \<^item> in api/ai-edit.js, no entry left is answered by \<open>bad_schema\<close> with status 200, and
    one entry or more are all returned, however few they are.
  The raw text \<open>Sure! {"alternatives":[{"text":""}]} Hope that helps.\<close> yields
  \<open>empty_alternatives\<close> in the Supabase function.
\<close>

theorem normalisation_outcomes:
  assumes "get_prop parsed ''alternatives'' = Some (Some (JArr alts))"
  shows \<open>(\<forall>es. ts_map 0 alts = Some es \<longrightarrow>
            length es = length alts \<and>
            (\<forall>i < length alts. ts_entry i (alts ! i) = Some (es ! i)) \<and>
            ts_finish parsed =
              (if [e \<leftarrow> es. trim (snd e) \<noteq> []] = []
               then Response 200 (ErrorMessage ''empty_alternatives'')
               else Response 200 (Alternatives [e \<leftarrow> es. trim (snd e) \<noteq> []] []))) \<and>
         (\<forall>es. js_map 0 alts = Some es \<and> (\<forall>e \<in> set es. is_string (Some (snd e))) \<longrightarrow>
            length es = length alts \<and>
            (\<forall>i < length alts. js_entry i (alts ! i) = Some (es ! i)) \<and>
            js_finish parsed =
              (if [e \<leftarrow> es. trim (str_of (Some (snd e))) \<noteq> []] = []
               then Response 200 (ErrorMessage ''bad_schema'')
               else Response 200
                      (Alternatives
                         (map (\<lambda>e. (fst e, str_of (Some (snd e))))
                              [e \<leftarrow> es. trim (str_of (Some (snd e))) \<noteq> []])
                         (other_members parsed)))) \<and>
         ts_recover ''Sure! {"alternatives":[{"text":""}]} Hope that helps.''
           = Response 200 (ErrorMessage ''empty_alternatives'')\<close>
proof -
  have ts: "\<forall>es. ts_map 0 alts = Some es \<longrightarrow>
            length es = length alts \<and>
            (\<forall>i < length alts. ts_entry i (alts ! i) = Some (es ! i)) \<and>
            ts_finish parsed =
              (if [e \<leftarrow> es. trim (snd e) \<noteq> []] = []
               then Response 200 (ErrorMessage ''empty_alternatives'')
               else Response 200 (Alternatives [e \<leftarrow> es. trim (snd e) \<noteq> []] []))"
  proof (intro allI impI)
    fix es assume es: "ts_map 0 alts = Some es"
    have l: "length es = length alts" using ts_map_nth [OF es] by simp
    have n: "\<forall>i < length alts. ts_entry i (alts ! i) = Some (es ! i)"
      using ts_map_nth [OF es] by simp
    have keep: "filter ts_keep es = [e \<leftarrow> es. trim (snd e) \<noteq> []]"
      by (rule filter_cong) (simp_all add: ts_keep_def)
    have f: "ts_finish parsed =
          (if [e \<leftarrow> es. trim (snd e) \<noteq> []] = []
           then Response 200 (ErrorMessage ''empty_alternatives'')
           else Response 200 (Alternatives [e \<leftarrow> es. trim (snd e) \<noteq> []] []))"
      using assms es by (simp add: ts_finish_def ts_normalise_def keep)
    show "length es = length alts \<and>
            (\<forall>i < length alts. ts_entry i (alts ! i) = Some (es ! i)) \<and>
            ts_finish parsed =
              (if [e \<leftarrow> es. trim (snd e) \<noteq> []] = []
               then Response 200 (ErrorMessage ''empty_alternatives'')
               else Response 200 (Alternatives [e \<leftarrow> es. trim (snd e) \<noteq> []] []))"
      by (rule conjI [OF l conjI [OF n f]])
  qed
  have js: "\<forall>es. js_map 0 alts = Some es \<and> (\<forall>e \<in> set es. is_string (Some (snd e))) \<longrightarrow>
            length es = length alts \<and>
            (\<forall>i < length alts. js_entry i (alts ! i) = Some (es ! i)) \<and>
            js_finish parsed =
              (if [e \<leftarrow> es. trim (str_of (Some (snd e))) \<noteq> []] = []
               then Response 200 (ErrorMessage ''bad_schema'')
               else Response 200
                      (Alternatives
                         (map (\<lambda>e. (fst e, str_of (Some (snd e))))
                              [e \<leftarrow> es. trim (str_of (Some (snd e))) \<noteq> []])
                         (other_members parsed)))"
  proof (intro allI impI)
    fix es
    assume a: "js_map 0 alts = Some es \<and> (\<forall>e \<in> set es. is_string (Some (snd e)))"
    then have es: "js_map 0 alts = Some es" by simp
    have l: "length es = length alts" using js_map_nth [OF es] by simp
    have n: "\<forall>i < length alts. js_entry i (alts ! i) = Some (es ! i)"
      using js_map_nth [OF es] by simp
    from a have "js_filter es =
         Some (map (\<lambda>e. (fst e, str_of (Some (snd e))))
                   [e \<leftarrow> es. trim (str_of (Some (snd e))) \<noteq> []])"
      by (intro js_filter_strings) simp
    then have f: "js_finish parsed =
          (if [e \<leftarrow> es. trim (str_of (Some (snd e))) \<noteq> []] = []
           then Response 200 (ErrorMessage ''bad_schema'')
           else Response 200
                  (Alternatives
                     (map (\<lambda>e. (fst e, str_of (Some (snd e))))
                          [e \<leftarrow> es. trim (str_of (Some (snd e))) \<noteq> []])
                     (other_members parsed)))"
      using assms es by (simp add: js_finish_def js_normalise_def)
    show "length es = length alts \<and>
            (\<forall>i < length alts. js_entry i (alts ! i) = Some (es ! i)) \<and>
            js_finish parsed =
              (if [e \<leftarrow> es. trim (str_of (Some (snd e))) \<noteq> []] = []
               then Response 200 (ErrorMessage ''bad_schema'')
               else Response 200
                      (Alternatives
                         (map (\<lambda>e. (fst e, str_of (Some (snd e))))
                              [e \<leftarrow> es. trim (str_of (Some (snd e))) \<noteq> []])
                         (other_members parsed)))"
      by (rule conjI [OF l conjI [OF n f]])
  qed
  have ex: \<open>ts_recover ''Sure! {"alternatives":[{"text":""}]} Hope that helps.''
          = Response 200 (ErrorMessage ''empty_alternatives'')\<close>
    by code_simp
  show ?thesis by (rule conjI [OF ts conjI [OF js ex]])
qed

theorem normalisation_outcomes_witness:
  \<open>get_prop (JObj [(''alternatives'', JArr [JObj [(''text'', JStr ''A'')], JObj [(''text'', JStr '' '')]])])
      ''alternatives''
     = Some (Some (JArr [JObj [(''text'', JStr ''A'')], JObj [(''text'', JStr '' '')]])) \<and>
   ts_map 0 [JObj [(''text'', JStr ''A'')], JObj [(''text'', JStr '' '')]]
     = Some [(''Option 1'', ''A''), (''Option 2'', '' '')] \<and>
   ts_finish (JObj [(''alternatives'', JArr [JObj [(''text'', JStr ''A'')], JObj [(''text'', JStr '' '')]])])
     = Response 200 (Alternatives [(''Option 1'', ''A'')] []) \<and>
   js_map 0 [JObj [(''text'', JStr ''A'')], JObj [(''text'', JStr '' '')]]
     = Some [(JStr ''Option 1'', JStr ''A''), (JStr ''Option 2'', JStr '' '')] \<and>
   js_finish (JObj [(''alternatives'', JArr [JObj [(''text'', JStr ''A'')], JObj [(''text'', JStr '' '')]])])
     = Response 200 (Alternatives [(JStr ''Option 1'', ''A'')] [])\<close>
proof -
  let ?alts = "[JObj [(''text'', JStr ''A'')], JObj [(''text'', JStr '' '')]]"
  let ?parsed = "JObj [(''alternatives'', JArr ?alts)]"
  let ?es = "[(JStr ''Option 1'', JStr ''A''), (JStr ''Option 2'', JStr '' '')]"
  have a: "get_prop ?parsed ''alternatives'' = Some (Some (JArr ?alts))" by simp
  have ts: "ts_map 0 ?alts = Some [(''Option 1'', ''A''), (''Option 2'', '' '')]" by code_simp
  have js: "js_map 0 ?alts = Some ?es" by code_simp
  have strings: "\<forall>e \<in> set ?es. is_string (Some (snd e))" by simp
  have t1: "trim ''A'' \<noteq> []" by code_simp
  have t2: "trim '' '' = []" by code_simp
  from normalisation_outcomes [OF a] ts js strings t1 t2 a show ?thesis by simp
qed

text \<open>
  The claim as first stated has the empty result reported as \<open>empty_alternatives\<close> by
  both handlers. api/ai-edit.js reports it as \<open>bad_schema\<close>, on the very text of the
  claim.
\<close>

theorem empty_result_reported_as_bad_schema:
  \<open>js_recover ''Sure! {"alternatives":[{"text":""}]} Hope that helps.''
     = Response 200 (ErrorMessage ''bad_schema'') \<and>
   js_recover ''Sure! {"alternatives":[{"text":""}]} Hope that helps.''
     \<noteq> Response 200 (ErrorMessage ''empty_alternatives'')\<close>
proof -
  have \<open>js_recover ''Sure! {"alternatives":[{"text":""}]} Hope that helps.''
          = Response 200 (ErrorMessage ''bad_schema'')\<close>
    by code_simp
  then show ?thesis by simp
qed

subsection \<open>Labels\<close>

lemma js_entry_empty_label:
  "js_entry i alt = Some e \<Longrightarrow> member_of alt ''label'' = Some (JStr []) \<Longrightarrow>
     fst e = JStr (option_label i)"
  by (auto simp: js_entry_def member_of_def truthy_or_def split: option.splits)

text \<open>
  C4 (as amended). An alternative without a label is given the placeholder \<open>Option N\<close>,
  numbered from 1 by its position in the parsed array, and an alternative whose label is a
  non-empty string keeps it verbatim, in both handlers (the Supabase function also keeps an
  empty string, which api/ai-edit.js replaces by the placeholder). The text \<open>{"alternatives":[{"text":"A"},{"label":"Custom","text":"B"}]}\<close>
  is normalised to \<open>Option 1\<close>, \<open>A\<close> and \<open>Custom\<close>, \<open>B\<close>.
\<close>

theorem labels_default_or_verbatim:
  assumes "i < length alts"
  shows \<open>(\<forall>es. ts_map 0 alts = Some es \<longrightarrow>
            (member_of (alts ! i) ''label'' = None \<longrightarrow> fst (es ! i) = option_label i) \<and>
            (\<forall>s. member_of (alts ! i) ''label'' = Some (JStr s) \<longrightarrow> fst (es ! i) = s)) \<and>
         (\<forall>es. js_map 0 alts = Some es \<longrightarrow>
            (member_of (alts ! i) ''label'' = None \<longrightarrow> fst (es ! i) = JStr (option_label i)) \<and>
            (\<forall>s. member_of (alts ! i) ''label'' = Some (JStr s) \<and> s \<noteq> [] \<longrightarrow>
                 fst (es ! i) = JStr s) \<and>
            (member_of (alts ! i) ''label'' = Some (JStr []) \<longrightarrow>
                 fst (es ! i) = JStr (option_label i))) \<and>
         ts_recover ''{"alternatives":[{"text":"A"},{"label":"Custom","text":"B"}]}''
           = Response 200 (Alternatives [(''Option 1'', ''A''), (''Custom'', ''B'')] []) \<and>
         js_recover ''{"alternatives":[{"text":"A"},{"label":"Custom","text":"B"}]}''
           = Response 200 (Alternatives [(JStr ''Option 1'', ''A''), (JStr ''Custom'', ''B'')] [])\<close>
proof (intro conjI allI impI)
  fix es assume "ts_map 0 alts = Some es"
  then have e: "ts_entry i (alts ! i) = Some (es ! i)"
    using ts_map_nth [of 0 alts es] assms by simp
  { assume "member_of (alts ! i) ''label'' = None"
    with e show "fst (es ! i) = option_label i" by (rule ts_entry_absent_label) }
  { fix s assume "member_of (alts ! i) ''label'' = Some (JStr s)"
    with e show "fst (es ! i) = s" by (rule ts_entry_string_label) }
next
  fix es assume "js_map 0 alts = Some es"
  then have e: "js_entry i (alts ! i) = Some (es ! i)"
    using js_map_nth [of 0 alts es] assms by simp
  { assume "member_of (alts ! i) ''label'' = None"
    with e show "fst (es ! i) = JStr (option_label i)" by (rule js_entry_absent_label) }
  { fix s assume "member_of (alts ! i) ''label'' = Some (JStr s) \<and> s \<noteq> []"
    with e show "fst (es ! i) = JStr s" by (auto intro: js_entry_string_label) }
  { assume "member_of (alts ! i) ''label'' = Some (JStr [])"
    with e show "fst (es ! i) = JStr (option_label i)" by (rule js_entry_empty_label) }
next
  show \<open>ts_recover ''{"alternatives":[{"text":"A"},{"label":"Custom","text":"B"}]}''
          = Response 200 (Alternatives [(''Option 1'', ''A''), (''Custom'', ''B'')] [])\<close>
    by code_simp
next
  show \<open>js_recover ''{"alternatives":[{"text":"A"},{"label":"Custom","text":"B"}]}''
          = Response 200 (Alternatives [(JStr ''Option 1'', ''A''), (JStr ''Custom'', ''B'')] [])\<close>
    by code_simp
qed

theorem labels_default_or_verbatim_witness:
  \<open>(1::nat) < length [JObj [(''text'', JStr ''A'')],
                       JObj [(''label'', JStr ''Custom''), (''text'', JStr ''B'')]] \<and>
   member_of ([JObj [(''text'', JStr ''A'')],
               JObj [(''label'', JStr ''Custom''), (''text'', JStr ''B'')]] ! 1) ''label''
     = Some (JStr ''Custom'') \<and> ''Custom'' \<noteq> [] \<and>
   ts_map 0 [JObj [(''text'', JStr ''A'')],
             JObj [(''label'', JStr ''Custom''), (''text'', JStr ''B'')]]
     = Some [(''Option 1'', ''A''), (''Custom'', ''B'')] \<and>
   fst ([(''Option 1'', ''A''), (''Custom'', ''B'')] ! 1) = ''Custom'' \<and>
   js_map 0 [JObj [(''text'', JStr ''A'')],
             JObj [(''label'', JStr ''Custom''), (''text'', JStr ''B'')]]
     = Some [(JStr ''Option 1'', JStr ''A''), (JStr ''Custom'', JStr ''B'')] \<and>
   fst ([(JStr ''Option 1'', JStr ''A''), (JStr ''Custom'', JStr ''B'')] ! 1) = JStr ''Custom''\<close>
proof -
  let ?alts = "[JObj [(''text'', JStr ''A'')],
                JObj [(''label'', JStr ''Custom''), (''text'', JStr ''B'')]]"
  have len: "(1::nat) < length ?alts" by simp
  have lab: "member_of (?alts ! 1) ''label'' = Some (JStr ''Custom'')"
    by (simp add: member_of_def)
  have ts: "ts_map 0 ?alts = Some [(''Option 1'', ''A''), (''Custom'', ''B'')]" by code_simp
  have js: "js_map 0 ?alts = Some [(JStr ''Option 1'', JStr ''A''), (JStr ''Custom'', JStr ''B'')]"
    by code_simp
  from labels_default_or_verbatim [OF len] ts js lab len show ?thesis by simp
qed

text \<open>
  The claim as first stated has every label that is present kept verbatim. In
  api/ai-edit.js a label that is present and empty is replaced by the placeholder.
\<close>

theorem empty_label_is_replaced:
  \<open>member_of (JObj [(''label'', JStr []), (''text'', JStr ''A'')]) ''label'' = Some (JStr []) \<and>
   js_recover ''{"alternatives":[{"label":"","text":"A"}]}''
     = Response 200 (Alternatives [(JStr ''Option 1'', ''A'')] [])\<close>
proof (intro conjI)
  show "member_of (JObj [(''label'', JStr []), (''text'', JStr ''A'')]) ''label'' = Some (JStr [])"
    by (simp add: member_of_def)
  show \<open>js_recover ''{"alternatives":[{"label":"","text":"A"}]}''
          = Response 200 (Alternatives [(JStr ''Option 1'', ''A'')] [])\<close>
    by code_simp
qed

subsection \<open>Text without braces\<close>

lemma ts_no_braces:
  assumes "CHR ''{'' \<notin> set (strip_fences raw) \<or> CHR ''}'' \<notin> set (strip_fences raw)"
  shows "ts_recover raw = Response 200 (ParseFailed raw)"
proof -
  have "json_span (strip_fences raw) = None" using assms by (simp add: json_span_None)
  then show ?thesis by (simp add: ts_recover_def ts_parseAlternatives_def)
qed

lemma js_no_braces:
  assumes "CHR ''{'' \<notin> set (strip_fences raw) \<or> CHR ''}'' \<notin> set (strip_fences raw)"
  shows "js_recover raw = Response 200 (ParseFailed raw)"
proof -
  have "json_span (strip_fences raw) = None" using assms by (simp add: json_span_None)
  then show ?thesis by (simp add: js_recover_def js_parseAlternatives_def)
qed

lemma JSON_parse_empty: "JSON_parse [] = Inl Syntax"
  by (simp add: JSON_parse_def tokens_def)

lemma edit_no_closing_brace:
  assumes "CHR ''{'' \<in> set (edit_clean raw)" and "CHR ''}'' \<notin> set (edit_clean raw)"
  shows "edit_recover raw = Response 200 (ParseFailed raw)"
proof -
  from assms(1) obtain jsonStart where
    "indexOf (edit_clean raw) (CHR ''{'') = Some jsonStart"
    using indexOf_None [of "edit_clean raw" "CHR ''{''"] by auto
  moreover from assms(2) have "lastIndexOf (edit_clean raw) (CHR ''}'') = None"
    by (simp add: lastIndexOf_None)
  ultimately have "edit_parse raw = Inl Syntax"
    by (simp add: edit_parse_def slice_def JSON_parse_empty)
  then show ?thesis by (simp add: edit_recover_def)
qed

lemma edit_without_opening_brace:
  assumes "CHR ''{'' \<notin> set (edit_clean raw)"
  shows "edit_parse raw = JSON_parse (edit_clean raw)"
proof -
  from assms have "indexOf (edit_clean raw) (CHR ''{'') = None" by (simp add: indexOf_None)
  then show ?thesis by (simp add: edit_parse_def)
qed

lemma edit_parsed_is_no_parse_failure:
  "edit_parse raw = Inr v \<Longrightarrow> edit_recover raw \<noteq> Response 200 (ParseFailed raw)"
  by (simp add: edit_recover_def split: option.splits)

text \<open>
  C2 (as amended). In the Supabase function and in api/ai-edit.js, a raw text in which,
  after fence stripping, \<open>{\<close> or \<open>}\<close> is absent is answered by \<open>parse_failed\<close> carrying
  the raw text as it came. In api/edit.js this holds when \<open>{\<close> is present and \<open>}\<close> is
  absent; without a \<open>{\<close> the whole cleaned text is handed to \<open>JSON.parse\<close>, and the
  answer is \<open>parse_failed\<close> with the raw text when that text is not JSON, and is not
  \<open>parse_failed\<close> when it is JSON. The text \<open>I cannot help with that.\<close> is answered
  by \<open>parse_failed\<close> in all three.
\<close>

theorem no_braces_is_parse_failure:
  \<open>(CHR ''{'' \<notin> set (strip_fences raw) \<or> CHR ''}'' \<notin> set (strip_fences raw) \<longrightarrow>
      ts_recover raw = Response 200 (ParseFailed raw) \<and>
      js_recover raw = Response 200 (ParseFailed raw)) \<and>
   (CHR ''{'' \<in> set (edit_clean raw) \<and> CHR ''}'' \<notin> set (edit_clean raw) \<longrightarrow>
      edit_recover raw = Response 200 (ParseFailed raw)) \<and>
   (CHR ''{'' \<notin> set (edit_clean raw) \<longrightarrow>
      edit_parse raw = JSON_parse (edit_clean raw) \<and>
      (JSON_parse (edit_clean raw) = Inl Syntax \<longrightarrow>
         edit_recover raw = Response 200 (ParseFailed raw)) \<and>
      (\<forall>v. JSON_parse (edit_clean raw) = Inr v \<longrightarrow>
         edit_recover raw \<noteq> Response 200 (ParseFailed raw))) \<and>
   ts_recover ''I cannot help with that.'' = Response 200 (ParseFailed ''I cannot help with that.'') \<and>
   js_recover ''I cannot help with that.'' = Response 200 (ParseFailed ''I cannot help with that.'') \<and>
   edit_recover ''I cannot help with that.''
     = Response 200 (ParseFailed ''I cannot help with that.'')\<close>
proof (intro conjI impI allI)
  assume a: "CHR ''{'' \<notin> set (strip_fences raw) \<or> CHR ''}'' \<notin> set (strip_fences raw)"
  show "ts_recover raw = Response 200 (ParseFailed raw)" using a by (rule ts_no_braces)
  show "js_recover raw = Response 200 (ParseFailed raw)" using a by (rule js_no_braces)
next
  assume "CHR ''{'' \<in> set (edit_clean raw) \<and> CHR ''}'' \<notin> set (edit_clean raw)"
  then show "edit_recover raw = Response 200 (ParseFailed raw)"
    by (simp add: edit_no_closing_brace)
next
  assume a: "CHR ''{'' \<notin> set (edit_clean raw)"
  then show p: "edit_parse raw = JSON_parse (edit_clean raw)"
    by (rule edit_without_opening_brace)
  { assume "JSON_parse (edit_clean raw) = Inl Syntax"
    with p show "edit_recover raw = Response 200 (ParseFailed raw)"
      by (simp add: edit_recover_def) }
  { fix v assume "JSON_parse (edit_clean raw) = Inr v"
    with p show "edit_recover raw \<noteq> Response 200 (ParseFailed raw)"
      by (simp add: edit_parsed_is_no_parse_failure) }
next
  show "ts_recover ''I cannot help with that.''
          = Response 200 (ParseFailed ''I cannot help with that.'')"
    by code_simp
  show "js_recover ''I cannot help with that.''
          = Response 200 (ParseFailed ''I cannot help with that.'')"
    by code_simp
  show "edit_recover ''I cannot help with that.''
          = Response 200 (ParseFailed ''I cannot help with that.'')"
    by code_simp
qed

theorem no_braces_is_parse_failure_witness:
  \<open>CHR ''{'' \<notin> set (strip_fences ''no json here'') \<and>
   ts_recover ''no json here'' = Response 200 (ParseFailed ''no json here'') \<and>
   js_recover ''no json here'' = Response 200 (ParseFailed ''no json here'') \<and>
   CHR ''{'' \<in> set (edit_clean ''{"alternatives":['') \<and>
   CHR ''}'' \<notin> set (edit_clean ''{"alternatives":['') \<and>
   edit_recover ''{"alternatives":['' = Response 200 (ParseFailed ''{"alternatives":['') \<and>
   CHR ''{'' \<notin> set (edit_clean ''no json here'') \<and>
   JSON_parse (edit_clean ''no json here'') = Inl Syntax \<and>
   edit_recover ''no json here'' = Response 200 (ParseFailed ''no json here'') \<and>
   CHR ''{'' \<notin> set (edit_clean ''[1]'') \<and>
   JSON_parse (edit_clean ''[1]'') = Inr (JArr [JNum (JsNum False ''1'')]) \<and>
   edit_recover ''[1]'' \<noteq> Response 200 (ParseFailed ''[1]'')\<close>
proof -
  have s: "strip_fences ''no json here'' = ''no json here''" by code_simp
  have e: \<open>edit_clean ''{"alternatives":['' = ''{"alternatives":[''\<close> by code_simp
  have a: "CHR ''{'' \<notin> set (strip_fences ''no json here'')"
    by (simp add: s)
  have b: \<open>CHR ''{'' \<in> set (edit_clean ''{"alternatives":['') \<and>
           CHR ''}'' \<notin> set (edit_clean ''{"alternatives":['')\<close>
    by (simp add: e)
  have c: "edit_clean ''no json here'' = ''no json here''" by code_simp
  have d: "JSON_parse ''no json here'' = Inl Syntax" by code_simp
  have f: "edit_clean ''[1]'' = ''[1]''" by code_simp
  have g: "JSON_parse ''[1]'' = Inr (JArr [JNum (JsNum False ''1'')])" by code_simp
  have c': "CHR ''{'' \<notin> set (edit_clean ''no json here'')" by (simp add: c)
  have d': "JSON_parse (edit_clean ''no json here'') = Inl Syntax" by (simp add: c d)
  have f': "CHR ''{'' \<notin> set (edit_clean ''[1]'')" by (simp add: f)
  have g': "JSON_parse (edit_clean ''[1]'') = Inr (JArr [JNum (JsNum False ''1'')])"
    by (simp add: f g)
  from no_braces_is_parse_failure [of "''no json here''"] a c' d'
  have 1: "ts_recover ''no json here'' = Response 200 (ParseFailed ''no json here'')"
    and 2: "js_recover ''no json here'' = Response 200 (ParseFailed ''no json here'')"
    and 3: "edit_recover ''no json here'' = Response 200 (ParseFailed ''no json here'')"
    by blast+
  from no_braces_is_parse_failure [of \<open>''{"alternatives":[''\<close>] b
  have 4: \<open>edit_recover ''{"alternatives":['' = Response 200 (ParseFailed ''{"alternatives":['')\<close>
    by blast
  from no_braces_is_parse_failure [of "''[1]''"] f' g'
  have 5: "edit_recover ''[1]'' \<noteq> Response 200 (ParseFailed ''[1]'')"
    by blast
  from a b c' d' f' g' 1 2 3 4 5 show ?thesis by blast
qed

text \<open>
  The claim as first stated covers api/edit.js as well. There the text \<open>true\<close>
  has no brace and is JSON: it is parsed, and the answer is \<open>bad_schema\<close>.
\<close>

theorem edit_parses_text_without_braces:
  "CHR ''{'' \<notin> set (edit_clean ''true'') \<and> CHR ''}'' \<notin> set (edit_clean ''true'') \<and>
   edit_recover ''true'' = Response 200 (ErrorMessage ''bad_schema'') \<and>
   edit_recover ''true'' \<noteq> Response 200 (ParseFailed ''true'')"
proof -
  have e: "edit_clean ''true'' = ''true''" by code_simp
  have r: "edit_recover ''true'' = Response 200 (ErrorMessage ''bad_schema'')" by code_simp
  show ?thesis by (simp add: e r)
qed

subsection \<open>Fences\<close>






















section \<open>Properties of the acceptance of a request\<close>

text \<open>
  C6. The temperature of each creative action (\<open>tone\<close>, \<open>rewrite\<close>, \<open>example\<close>) is
  strictly above the temperature of each corrective action (\<open>shorter\<close>, \<open>clearer\<close>,
  \<open>fix\<close>, \<open>expand\<close>, \<open>bullets\<close>).
\<close>

theorem creative_is_warmer_than_corrective:
  assumes "creative \<in> {''tone'', ''rewrite'', ''example''}"
    and "corrective \<in> {''shorter'', ''clearer'', ''fix'', ''expand'', ''bullets''}"
  shows "getTemperature corrective < getTemperature creative"
proof -
  from assms(1) have hot: "getTemperature creative = 0.3"
    by (auto simp: getTemperature_def)
  from assms(2) have cold: "getTemperature corrective = 0.2"
    by (auto simp: getTemperature_def)
  show ?thesis by (simp add: hot cold)
qed

theorem creative_is_warmer_than_corrective_witness:
  "''tone'' \<in> {''tone'', ''rewrite'', ''example''} \<and>
   ''fix'' \<in> {''shorter'', ''clearer'', ''fix'', ''expand'', ''bullets''} \<and>
   getTemperature ''fix'' < getTemperature ''tone''"
proof -
  have a: "''tone'' \<in> {''tone'', ''rewrite'', ''example''}" by simp
  have b: "''fix'' \<in> {''shorter'', ''clearer'', ''fix'', ''expand'', ''bullets''}" by simp
  from creative_is_warmer_than_corrective [OF a b] a b show ?thesis by blast
qed

lemma get_prop_member_of: "body \<noteq> JNull \<Longrightarrow> get_prop body k = Some (member_of body k)"
  by (cases body) (simp_all add: member_of_def)

lemma ts_process_call:
  assumes "ts_process body = Inr call"
  shows "is_string (member_of body ''action'') \<and>
         str_of (member_of body ''action'') \<in> set validActions \<and>
         (\<exists>text. js_String (nullish_or (member_of body ''selectedText'') (JStr [])) = Some text \<and>
                 trim text \<noteq> []) \<and>
         (str_of (member_of body ''action'') = ''tone'' \<longrightarrow>
            truthy (Some (or_default (member_of body ''tone'') JNull)))"
proof -
  have "body \<noteq> JNull" using assms by (auto simp: ts_process_def)
  then have g: "get_prop body ''action'' = Some (member_of body ''action'')"
    by (rule get_prop_member_of)
  show ?thesis
    using assms unfolding ts_process_def g Let_def
    by (simp split: if_splits option.splits)
qed

lemma js_process_call:
  assumes "js_process body = Inr call"
  shows "is_string (member_of body ''action'') \<and>
         str_of (member_of body ''action'') \<in> set validActions \<and>
         (\<exists>text. member_of body ''selectedText'' = Some (JStr text) \<and> trim text \<noteq> []) \<and>
         (str_of (member_of body ''action'') = ''tone'' \<longrightarrow>
            truthy (Some (or_default (member_of body ''tone'') JNull)))"
proof -
  have "body \<noteq> JNull" using assms by (auto simp: js_process_def)
  then have g: "get_prop body ''action'' = Some (member_of body ''action'')"
    by (rule get_prop_member_of)
  show ?thesis
    using assms unfolding js_process_def g Let_def
    by (simp split: if_splits option.splits json.splits)
qed

lemma ts_process_rejects:
  assumes "body \<noteq> JNull"
    and "js_String (nullish_or (member_of body ''selectedText'') (JStr [])) = Some text"
    and "\<not> truthy (member_of body ''action'') \<or> \<not> is_string (member_of body ''action'') \<or>
         trim text = [] \<or> str_of (member_of body ''action'') \<notin> set validActions \<or>
         (str_of (member_of body ''action'') = ''tone'' \<and>
          \<not> truthy (Some (or_default (member_of body ''tone'') JNull)))"
  shows "\<exists>msg. ts_process body = Inl (Response 400 (ErrorMessage msg))"
proof -
  have g: "get_prop body ''action'' = Some (member_of body ''action'')"
    using assms(1) by (rule get_prop_member_of)
  show ?thesis
    using assms(2,3) unfolding ts_process_def g Let_def by auto
qed

lemma js_process_rejects:
  assumes "body \<noteq> JNull"
    and "member_of body ''selectedText'' = Some (JStr text) \<or>
         (\<not> truthy (member_of body ''selectedText'') \<and> text = [])"
    and "\<not> truthy (member_of body ''action'') \<or> \<not> is_string (member_of body ''action'') \<or>
         trim text = [] \<or> str_of (member_of body ''action'') \<notin> set validActions \<or>
         (str_of (member_of body ''action'') = ''tone'' \<and>
          \<not> truthy (Some (or_default (member_of body ''tone'') JNull)))"
  shows "\<exists>msg. js_process body = Inl (Response 400 (ErrorMessage msg))"
proof -
  have g: "get_prop body ''action'' = Some (member_of body ''action'')"
    using assms(1) by (rule get_prop_member_of)
  have e: "trim [] = []" by code_simp
  show ?thesis
    using assms(2,3) e unfolding js_process_def g Let_def by auto
qed

text \<open>
  C5 (as amended). A request with a missing or invalid action, a selection that is empty
  after trimming, an action outside the list of valid actions, or the action \<open>tone\<close>
  without a tone never reaches the generator: whenever a handler goes on to the generation
  call, the request has none of these defects. The answer to such a request is status 400
  when the request is a POST, the credential is configured, the body is not \<open>null\<close> and
  the selection can be trimmed (in the Supabase function: \<open>String\<close> converts it; in
  api/ai-edit.js: it is a string or falsy).
\<close>

theorem defective_requests_never_reach_generator:
  \<open>(calls_generator (ts_accept apiKey req) \<longrightarrow>
      (\<exists>b. req_body req = Some b \<and>
         is_string (member_of b ''action'') \<and>
         str_of (member_of b ''action'') \<in> set validActions \<and>
         (\<exists>t. js_String (nullish_or (member_of b ''selectedText'') (JStr [])) = Some t \<and>
              trim t \<noteq> []) \<and>
         (str_of (member_of b ''action'') = ''tone'' \<longrightarrow>
            truthy (Some (or_default (member_of b ''tone'') JNull))))) \<and>
   (calls_generator (js_accept apiKey req) \<longrightarrow>
      (\<exists>b. req_body req = Some b \<and>
         is_string (member_of b ''action'') \<and>
         str_of (member_of b ''action'') \<in> set validActions \<and>
         (\<exists>t. member_of b ''selectedText'' = Some (JStr t) \<and> trim t \<noteq> []) \<and>
         (str_of (member_of b ''action'') = ''tone'' \<longrightarrow>
            truthy (Some (or_default (member_of b ''tone'') JNull))))) \<and>
   (req_method req = ''POST'' \<and> apiKey = Some key \<and> key \<noteq> [] \<and> req_body req = Some body \<and>
    body \<noteq> JNull \<and>
    (\<not> truthy (member_of body ''action'') \<or> \<not> is_string (member_of body ''action'') \<or>
     trim text = [] \<or> str_of (member_of body ''action'') \<notin> set validActions \<or>
     (str_of (member_of body ''action'') = ''tone'' \<and>
      \<not> truthy (Some (or_default (member_of body ''tone'') JNull)))) \<longrightarrow>
      (js_String (nullish_or (member_of body ''selectedText'') (JStr [])) = Some text \<longrightarrow>
         (\<exists>msg. ts_accept apiKey req = Inl (Response 400 (ErrorMessage msg)))) \<and>
      (member_of body ''selectedText'' = Some (JStr text) \<or>
       (\<not> truthy (member_of body ''selectedText'') \<and> text = []) \<longrightarrow>
         (\<exists>msg. js_accept apiKey req = Inl (Response 400 (ErrorMessage msg)))))\<close>
proof (intro conjI impI)
  assume "calls_generator (ts_accept apiKey req)"
  then obtain b call where b: "req_body req = Some b" and "ts_process b = Inr call"
    by (auto simp: calls_generator_def ts_accept_def split: if_splits option.splits sum.splits)
  then show "\<exists>b. req_body req = Some b \<and>
         is_string (member_of b ''action'') \<and>
         str_of (member_of b ''action'') \<in> set validActions \<and>
         (\<exists>t. js_String (nullish_or (member_of b ''selectedText'') (JStr [])) = Some t \<and>
              trim t \<noteq> []) \<and>
         (str_of (member_of b ''action'') = ''tone'' \<longrightarrow>
            truthy (Some (or_default (member_of b ''tone'') JNull)))"
    using ts_process_call [of b call] by blast
next
  assume "calls_generator (js_accept apiKey req)"
  then obtain b call where b: "req_body req = Some b" and "js_process b = Inr call"
    by (auto simp: calls_generator_def js_accept_def split: if_splits option.splits sum.splits)
  then show "\<exists>b. req_body req = Some b \<and>
         is_string (member_of b ''action'') \<and>
         str_of (member_of b ''action'') \<in> set validActions \<and>
         (\<exists>t. member_of b ''selectedText'' = Some (JStr t) \<and> trim t \<noteq> []) \<and>
         (str_of (member_of b ''action'') = ''tone'' \<longrightarrow>
            truthy (Some (or_default (member_of b ''tone'') JNull)))"
    using js_process_call [of b call] by blast
next
  assume a: "req_method req = ''POST'' \<and> apiKey = Some key \<and> key \<noteq> [] \<and> req_body req = Some body \<and>
    body \<noteq> JNull \<and>
    (\<not> truthy (member_of body ''action'') \<or> \<not> is_string (member_of body ''action'') \<or>
     trim text = [] \<or> str_of (member_of body ''action'') \<notin> set validActions \<or>
     (str_of (member_of body ''action'') = ''tone'' \<and>
      \<not> truthy (Some (or_default (member_of body ''tone'') JNull))))"
  and s: "js_String (nullish_or (member_of body ''selectedText'') (JStr [])) = Some text"
  from a have "ts_accept apiKey req = ts_process body" by (simp add: ts_accept_def)
  moreover from a s have "\<exists>msg. ts_process body = Inl (Response 400 (ErrorMessage msg))"
    by (intro ts_process_rejects [of body "text"]) (blast+)
  ultimately show "\<exists>msg. ts_accept apiKey req = Inl (Response 400 (ErrorMessage msg))" by simp
next
  assume a: "req_method req = ''POST'' \<and> apiKey = Some key \<and> key \<noteq> [] \<and> req_body req = Some body \<and>
    body \<noteq> JNull \<and>
    (\<not> truthy (member_of body ''action'') \<or> \<not> is_string (member_of body ''action'') \<or>
     trim text = [] \<or> str_of (member_of body ''action'') \<notin> set validActions \<or>
     (str_of (member_of body ''action'') = ''tone'' \<and>
      \<not> truthy (Some (or_default (member_of body ''tone'') JNull))))"
  and s: "member_of body ''selectedText'' = Some (JStr text) \<or>
       (\<not> truthy (member_of body ''selectedText'') \<and> text = [])"
  from a have "js_accept apiKey req = js_process body" by (simp add: js_accept_def)
  moreover from a s have "\<exists>msg. js_process body = Inl (Response 400 (ErrorMessage msg))"
    by (intro js_process_rejects [of body "text"]) (blast+)
  ultimately show "\<exists>msg. js_accept apiKey req = Inl (Response 400 (ErrorMessage msg))" by simp
qed

theorem defective_requests_never_reach_generator_witness:
  \<open>calls_generator
     (ts_accept (Some ''k'')
        \<lparr>req_method = ''POST'',
         req_body = Some (JObj [(''action'', JStr ''fix''), (''selectedText'', JStr ''teh'')])\<rparr>) \<and>
   calls_generator
     (js_accept (Some ''k'')
        \<lparr>req_method = ''POST'',
         req_body = Some (JObj [(''action'', JStr ''fix''), (''selectedText'', JStr ''teh'')])\<rparr>) \<and>
   str_of (member_of (JObj [(''action'', JStr ''fix''), (''selectedText'', JStr ''teh'')]) ''action'')
     \<in> set validActions \<and>
   trim ''teh'' \<noteq> [] \<and>
   (\<exists>msg. ts_accept (Some ''k'')
        \<lparr>req_method = ''POST'',
         req_body = Some (JObj [(''action'', JStr ''tone''), (''selectedText'', JStr ''teh'')])\<rparr>
      = Inl (Response 400 (ErrorMessage msg))) \<and>
   (\<exists>msg. js_accept (Some ''k'')
        \<lparr>req_method = ''POST'',
         req_body = Some (JObj [(''action'', JStr ''tone''), (''selectedText'', JStr ''teh'')])\<rparr>
      = Inl (Response 400 (ErrorMessage msg)))\<close>
proof -
  let ?good = "JObj [(''action'', JStr ''fix''), (''selectedText'', JStr ''teh'')]"
  let ?bad = "JObj [(''action'', JStr ''tone''), (''selectedText'', JStr ''teh'')]"
  have ts: "calls_generator (ts_accept (Some ''k'') \<lparr>req_method = ''POST'', req_body = Some ?good\<rparr>)"
    by code_simp
  have js: "calls_generator (js_accept (Some ''k'') \<lparr>req_method = ''POST'', req_body = Some ?good\<rparr>)"
    by code_simp
  have t: "trim ''teh'' = ''teh''" by code_simp
  from defective_requests_never_reach_generator
         [of "Some ''k''" "\<lparr>req_method = ''POST'', req_body = Some ?good\<rparr>"] ts js
  have good: "str_of (member_of ?good ''action'') \<in> set validActions"
    by simp
  have "(\<exists>msg. ts_accept (Some ''k'') \<lparr>req_method = ''POST'', req_body = Some ?bad\<rparr>
                 = Inl (Response 400 (ErrorMessage msg))) \<and>
        (\<exists>msg. js_accept (Some ''k'') \<lparr>req_method = ''POST'', req_body = Some ?bad\<rparr>
                 = Inl (Response 400 (ErrorMessage msg)))"
    using defective_requests_never_reach_generator
            [of "Some ''k''" "\<lparr>req_method = ''POST'', req_body = Some ?bad\<rparr>" "''k''" ?bad "''teh''"]
    by (simp add: member_of_def or_default_def)
  with ts js good t show ?thesis by simp
qed

text \<open>
  The claim as first stated has every such request answered with a 4xx status. A body
  that is \<open>null\<close> carries no action, and the Supabase function answers it with status 500
  from its last-resort \<open>catch\<close>; a request to api/ai-edit.js with an unknown action and a
  number as its selection raises an exception that nothing catches.
\<close>

theorem defective_request_without_4xx:
  "ts_accept (Some ''k'') \<lparr>req_method = ''POST'', req_body = Some JNull\<rparr>
     = Inl (Response 500 UnhandledError) \<and>
   js_accept (Some ''k'')
     \<lparr>req_method = ''POST'',
      req_body = Some (JObj [(''action'', JStr ''summarise''),
                             (''selectedText'', JNum (JsNum False ''5''))])\<rparr>
     = Inl Uncaught"
proof (intro conjI)
  show "ts_accept (Some ''k'') \<lparr>req_method = ''POST'', req_body = Some JNull\<rparr>
          = Inl (Response 500 UnhandledError)"
    by (simp add: ts_accept_def ts_process_def)
  show "js_accept (Some ''k'')
          \<lparr>req_method = ''POST'',
           req_body = Some (JObj [(''action'', JStr ''summarise''),
                                  (''selectedText'', JNum (JsNum False ''5''))])\<rparr>
          = Inl Uncaught"
    by (simp add: js_accept_def js_process_def member_of_def)
qed

subsection \<open>The prompts are a function of the fields that are read\<close>

lemma member_of_cong: "get_prop b1 k = get_prop b2 k \<Longrightarrow> member_of b1 k = member_of b2 k"
  by (simp add: member_of_def)

text \<open>
  What a handler does with a request up to the generation call depends on the method, on
  whether a credential is configured and on seven members of the body; the other members of
  the body (\<open>noteId\<close>, \<open>languageHint\<close>) and the value of the credential do not enter.
\<close>

lemma handlers_read_seven_members:
  assumes "req_method r1 = req_method r2"
    and "req_body r1 = Some b1" and "req_body r2 = Some b2"
    and "key1 \<noteq> []" and "key2 \<noteq> []"
  shows "((\<forall>k \<in> set [''action'', ''tone'', ''noteTitle'', ''noteContent'', ''selectedText'',
                      ''before'', ''after'']. get_prop b1 k = get_prop b2 k) \<longrightarrow>
            ts_accept (Some key1) r1 = ts_accept (Some key2) r2) \<and>
         ((\<forall>k \<in> set [''action'', ''tone'', ''noteTitle'', ''noteContent'', ''selectedText'',
                      ''selectionContext'', ''userProfile'']. get_prop b1 k = get_prop b2 k) \<longrightarrow>
            js_accept (Some key1) r1 = js_accept (Some key2) r2)"
proof (intro conjI impI)
  assume same: "\<forall>k \<in> set [''action'', ''tone'', ''noteTitle'', ''noteContent'', ''selectedText'',
                           ''before'', ''after'']. get_prop b1 k = get_prop b2 k"
  then have a: "get_prop b1 ''action'' = get_prop b2 ''action''" by simp
  from same have m: "member_of b1 ''tone'' = member_of b2 ''tone''"
    "member_of b1 ''noteTitle'' = member_of b2 ''noteTitle''"
    "member_of b1 ''noteContent'' = member_of b2 ''noteContent''"
    "member_of b1 ''selectedText'' = member_of b2 ''selectedText''"
    "member_of b1 ''before'' = member_of b2 ''before''"
    "member_of b1 ''after'' = member_of b2 ''after''"
    by (auto intro: member_of_cong)
  have "ts_process b1 = ts_process b2"
    by (simp only: ts_process_def a m)
  then show "ts_accept (Some key1) r1 = ts_accept (Some key2) r2"
    using assms by (simp add: ts_accept_def)
next
  assume same: "\<forall>k \<in> set [''action'', ''tone'', ''noteTitle'', ''noteContent'', ''selectedText'',
                           ''selectionContext'', ''userProfile'']. get_prop b1 k = get_prop b2 k"
  then have a: "get_prop b1 ''action'' = get_prop b2 ''action''" by simp
  from same have m: "member_of b1 ''tone'' = member_of b2 ''tone''"
    "member_of b1 ''noteTitle'' = member_of b2 ''noteTitle''"
    "member_of b1 ''noteContent'' = member_of b2 ''noteContent''"
    "member_of b1 ''selectedText'' = member_of b2 ''selectedText''"
    "member_of b1 ''selectionContext'' = member_of b2 ''selectionContext''"
    "member_of b1 ''userProfile'' = member_of b2 ''userProfile''"
    by (auto intro: member_of_cong)
  have "js_process b1 = js_process b2"
    by (simp only: js_process_def a m)
  then show "js_accept (Some key1) r1 = js_accept (Some key2) r2"
    using assms by (simp add: js_accept_def)
qed

subsection \<open>Compilation of requests with fields of the documented types\<close>





























text \<open>
  The member read \<open>ACTION_INSTRUCTIONS[action]\<close> finds an inherited member for a name such
  as \<open>constructor\<close>, which is why the fallback is stated for the other names. Both handlers
  reject such an action before the prompt is built.
\<close>

lemma inherited_member_is_read:
  "ts_buildSystemPrompt ''constructor'' JNull
     = Some (ts_BASE_SYSTEM @ NL @ NL @ native_function ''Object'')"
  by (simp add: ts_buildSystemPrompt_def registry_get_def ts_ACTION_INSTRUCTIONS_def
                object_prototype_def)

end
